theory Spec2Isabelle
  imports Complex_Main "HOL-Library.Word"
begin

section \<open>GraphDocumentView: binding a document to a graph canvas\<close>

text \<open>
  The view of \<^verbatim>\<open>GraphDocumentView.cpp\<close> tracks one document identifier and reacts to
  the three document notifications. Identifiers are the engine's handles: a document is named
  by a 128-bit \<^verbatim>\<open>AZ::Uuid\<close>, a graph and a view by an \<^verbatim>\<open>AZ::EntityId\<close>
  (\<^verbatim>\<open>GraphCanvas::GraphId\<close>, \<^verbatim>\<open>GraphCanvas::ViewId\<close>), a tool by a \<^verbatim>\<open>AZ::Crc32\<close>.
\<close>

type_synonym Uuid = "128 word"
type_synonym Crc32 = "32 word"

text \<open>
  Modelled from the spec: \<^verbatim>\<open>AZ::EntityId\<close> is declared outside the two source files. It is an
  opaque 64-bit handle whose default-constructed value is the one invalid identifier.
\<close>

datatype EntityId = EntityId (m_id: "64 word")

definition InvalidEntityId :: "64 word" where
  "InvalidEntityId = 0x00000000FFFFFFFF"

definition EntityId_default :: EntityId where
  "EntityId_default = EntityId InvalidEntityId"

definition IsValid :: "EntityId \<Rightarrow> bool" where
  "IsValid e = (m_id e \<noteq> InvalidEntityId)"

type_synonym GraphId = EntityId
type_synonym ViewId = EntityId

text \<open>
  What the view asks of the canvas is kept as a trace of calls, oldest first:
  \<^verbatim>\<open>SetActiveGraphId(id, notify)\<close> of the base class \<^verbatim>\<open>GraphView\<close> and the
  \<^verbatim>\<open>ShowEntireGraph\<close> event sent to a view address.
\<close>

datatype CanvasCall =
    SetActiveGraphIdCall GraphId bool
  | ShowEntireGraph ViewId

record GraphDocumentView =
  m_toolId :: Crc32
  m_documentId :: Uuid
  m_openedBefore :: bool
  m_activeGraphId :: GraphId
  m_busConnected :: "Crc32 option"
  m_canvasCalls :: "CanvasCall list"

text \<open>
  The request buses the handlers query. \<^verbatim>\<open>EventResult\<close> leaves its result argument as it
  was when no handler is connected at the address, which is \<open>None\<close> here.
\<close>

record RequestBuses =
  GetGraphId :: "Uuid \<Rightarrow> GraphId option"
  GetViewId :: "GraphId \<Rightarrow> ViewId option"

definition EventResult :: "'r \<Rightarrow> 'r option \<Rightarrow> 'r" where
  "EventResult r answer = (case answer of None \<Rightarrow> r | Some v \<Rightarrow> v)"

text \<open>
  Modelled from the spec: \<^verbatim>\<open>GraphView::SetActiveGraphId\<close> belongs to the base class, outside the
  source files. It makes the given graph the active one of the embedded canvas widget.
\<close>

definition SetActiveGraphId :: "GraphId \<Rightarrow> bool \<Rightarrow> GraphDocumentView \<Rightarrow> GraphDocumentView" where
  "SetActiveGraphId activeGraphId notify v =
     v\<lparr>m_activeGraphId := activeGraphId,
       m_canvasCalls := m_canvasCalls v @ [SetActiveGraphIdCall activeGraphId notify]\<rparr>"

definition OnDocumentOpened :: "RequestBuses \<Rightarrow> Uuid \<Rightarrow> GraphDocumentView \<Rightarrow> GraphDocumentView" where
  "OnDocumentOpened bus documentId v =
     (if m_documentId v = documentId then
        let activeGraphId = EventResult EntityId_default (GetGraphId bus (m_documentId v));
            v1 = SetActiveGraphId activeGraphId True v
        in if \<not> m_openedBefore v1 \<and> IsValid activeGraphId then
             let viewId = EventResult EntityId_default (GetViewId bus activeGraphId)
             in v1\<lparr>m_canvasCalls := m_canvasCalls v1 @ [ShowEntireGraph viewId],
                   m_openedBefore := True\<rparr>
           else v1
      else SetActiveGraphId EntityId_default False v)"

definition OnDocumentClosed :: "Uuid \<Rightarrow> GraphDocumentView \<Rightarrow> GraphDocumentView" where
  "OnDocumentClosed documentId v =
     (if m_documentId v = documentId then SetActiveGraphId EntityId_default True v else v)"

definition OnDocumentDestroyed :: "Uuid \<Rightarrow> GraphDocumentView \<Rightarrow> GraphDocumentView" where
  "OnDocumentDestroyed documentId v =
     (if m_documentId v = documentId then SetActiveGraphId EntityId_default True v else v)"

text \<open>
  The constructor: the base class starts with the default graph identifier, the view connects
  to the notification bus of its tool, replays an "opened" notification for its own document
  and then clears \<open>m_openedBefore\<close>. The member's value before the body runs comes from
  the class declaration, so it is an argument here.
\<close>

definition GraphDocumentView_ctor ::
  "RequestBuses \<Rightarrow> Crc32 \<Rightarrow> Uuid \<Rightarrow> bool \<Rightarrow> GraphDocumentView" where
  "GraphDocumentView_ctor bus toolId documentId openedBefore0 =
     (let v0 = \<lparr>m_toolId = toolId, m_documentId = documentId, m_openedBefore = openedBefore0,
                m_activeGraphId = EntityId_default, m_busConnected = None, m_canvasCalls = []\<rparr>;
          v1 = v0\<lparr>m_busConnected := Some (m_toolId v0)\<rparr>;
          v2 = OnDocumentOpened bus (m_documentId v1) v1
      in v2\<lparr>m_openedBefore := False\<rparr>)"

text \<open>
  A run of "document opened" notifications for the tracked document. Each notification meets
  the request buses as they are at that moment, so a run is a list of bus states.
\<close>

definition openTracked :: "GraphDocumentView \<Rightarrow> RequestBuses \<Rightarrow> GraphDocumentView" where
  "openTracked v bus = OnDocumentOpened bus (m_documentId v) v"

definition openTrackedAll :: "GraphDocumentView \<Rightarrow> RequestBuses list \<Rightarrow> GraphDocumentView" where
  "openTrackedAll v buses = foldl openTracked v buses"

definition fetchedGraphId :: "GraphDocumentView \<Rightarrow> RequestBuses \<Rightarrow> GraphId" where
  "fetchedGraphId v bus = EventResult EntityId_default (GetGraphId bus (m_documentId v))"

fun isShowEntireGraph :: "CanvasCall \<Rightarrow> bool" where
  "isShowEntireGraph (ShowEntireGraph _) = True"
| "isShowEntireGraph (SetActiveGraphIdCall _ _) = False"

definition centerings :: "GraphDocumentView \<Rightarrow> nat" where
  "centerings v = length (filter isShowEntireGraph (m_canvasCalls v))"


text \<open>
  A small configuration for evaluating the handlers: buses on which the document answers a
  fixed graph identifier (or is not connected), and a view constructed for document 42 while
  its document is not yet connected.
\<close>

definition documentBus :: "GraphId option \<Rightarrow> RequestBuses" where
  "documentBus answer =
     \<lparr>GetGraphId = (\<lambda>documentId. answer),
      GetViewId = (\<lambda>graphId. Some (EntityId (m_id graphId + 100)))\<rparr>"

definition sampleView :: GraphDocumentView where
  "sampleView = GraphDocumentView_ctor (documentBus None) 1 42 False"

definition sampleOpens :: "RequestBuses list" where
  "sampleOpens =
     [documentBus None, documentBus (Some (EntityId 5)), documentBus (Some (EntityId 6))]"

section \<open>FullscreenTrianglePass: one shader-generated triangle per frame\<close>

text \<open>
  The pass of \<^verbatim>\<open>FullscreenTrianglePass.cpp\<close>. The engine objects it talks to (assets,
  shaders, resource groups, the pipeline state builder, the command list, the frame graph)
  live outside the source file. They appear here as plain data with the members the pass
  reads, and the engine services as the functions of an environment record.
\<close>

type_synonym uint8_t = "8 word"
type_synonym uint32_t = "32 word"
type_synonym int32_t = "32 word"

subsection \<open>Assets, pass data and the descriptor\<close>

text \<open>
  Modelled from the spec: \<^verbatim>\<open>AZ::Data::AssetId\<close> is declared outside the source files. It
  is a handle (a 128-bit guid and a sub-identifier) that is valid when the guid is not null;
  the default-constructed one is null.
\<close>

datatype AssetId = AssetId (m_guid: Uuid) (m_subId: uint32_t)

definition AssetId_default :: AssetId where
  "AssetId_default = AssetId 0 0"

definition AssetId_IsValid :: "AssetId \<Rightarrow> bool" where
  "AssetId_IsValid a = (m_guid a \<noteq> 0)"

record AssetReference =
  m_filePath :: string
  m_assetId :: AssetId

record FullscreenTrianglePassData =
  m_shaderAsset :: AssetReference
  m_stencilRef :: uint32_t

text \<open>
  Modelled from the spec: \<^verbatim>\<open>PassUtils::GetPassData<T>\<close> is declared outside the source
  files. A descriptor carries pass data of some class, or none, and the function answers a
  null pointer when there is none or when it is of another class (the "missing or invalid
  configuration").
\<close>

datatype PassData =
    FullscreenTriangleData FullscreenTrianglePassData
  | OtherPassData

record PassDescriptor =
  m_passName :: string
  m_passData :: "PassData option"

definition GetPassData :: "PassDescriptor \<Rightarrow> FullscreenTrianglePassData option" where
  "GetPassData descriptor =
     (case m_passData descriptor of
        Some (FullscreenTriangleData passData) \<Rightarrow> Some passData
      | _ \<Rightarrow> None)"

datatype ShaderAsset = ShaderAsset (GetId: AssetId)

definition ShaderAsset_default :: ShaderAsset where
  "ShaderAsset_default = ShaderAsset AssetId_default"

subsection \<open>Shaders and shader resource groups\<close>

datatype SrgBindingSlot = Draw | Object | Material | SubPass | Pass | View | Scene

record ShaderResourceGroupLayout =
  GetName :: string

record ShaderResourceGroup =
  srg_asset :: ShaderAsset
  srg_supervariantIndex :: nat
  srg_layoutName :: string
  srg_data :: "(string \<times> string) list"

text \<open>
  A shader is an engine object that a hot reload rewrites in place, so the pass holds a
  reference to it (\<^verbatim>\<open>Data::Instance<Shader>\<close>) and reads its current content through the
  engine each time.
\<close>

type_synonym ShaderInstance = nat

record Shader =
  GetAsset :: ShaderAsset
  GetSupervariantIndex :: nat
  FindShaderResourceGroupLayout :: "SrgBindingSlot \<Rightarrow> ShaderResourceGroupLayout option"
  CreateDefaultDrawSrg :: "bool \<Rightarrow> ShaderResourceGroup option"

type_synonym ShaderOptionList = "(string \<times> string) list"

subsection \<open>Pipeline state, draw item, viewport and scissor\<close>

datatype PrimitiveTopology =
  Undefined | PointList | LineList | LineStrip | TriangleList | TriangleStrip | PatchList

record InputStreamLayout =
  m_topology :: PrimitiveTopology
  m_streamChannels :: "nat list"
  m_streamBuffers :: "nat list"
  m_finalized :: bool

definition InputStreamLayout_default :: InputStreamLayout where
  "InputStreamLayout_default =
     \<lparr>m_topology = Undefined, m_streamChannels = [], m_streamBuffers = [], m_finalized = False\<rparr>"

definition SetTopology :: "PrimitiveTopology \<Rightarrow> InputStreamLayout \<Rightarrow> InputStreamLayout" where
  "SetTopology topology layout = layout\<lparr>m_topology := topology\<rparr>"

definition InputStreamLayout_Finalize :: "InputStreamLayout \<Rightarrow> InputStreamLayout" where
  "InputStreamLayout_Finalize layout = layout\<lparr>m_finalized := True\<rparr>"

text \<open>
  Modelled from the spec: \<^verbatim>\<open>PipelineStateForDraw\<close> is an engine class declared outside the
  source files. The pass only calls into it, so its state is the sequence of calls made on
  it, oldest first. The object has been initialised exactly when an \<open>Init\<close> call is in that
  sequence.
\<close>

datatype PipelineStateForDrawCall =
    Init ShaderInstance "ShaderOptionList option"
  | UpdateSrgVariantFallback "ShaderResourceGroup option"
  | SetOutputFromPass
  | SetInputStreamLayout InputStreamLayout
  | Finalize

type_synonym PipelineStateForDraw = "PipelineStateForDrawCall list"
type_synonym PipelineState = nat

record DrawLinear =
  m_instanceCount :: uint32_t
  m_instanceOffset :: uint32_t
  m_vertexCount :: uint32_t
  m_vertexOffset :: uint32_t

definition DrawLinear_default :: DrawLinear where
  "DrawLinear_default =
     \<lparr>m_instanceCount = 1, m_instanceOffset = 0, m_vertexCount = 0, m_vertexOffset = 0\<rparr>"

record DrawIndexed =
  m_indexedInstanceCount :: uint32_t
  m_indexedInstanceOffset :: uint32_t
  m_indexCount :: uint32_t
  m_indexOffset :: uint32_t
  m_indexedVertexOffset :: uint32_t

definition DrawIndexed_default :: DrawIndexed where
  "DrawIndexed_default =
     \<lparr>m_indexedInstanceCount = 1, m_indexedInstanceOffset = 0, m_indexCount = 0,
      m_indexOffset = 0, m_indexedVertexOffset = 0\<rparr>"

datatype DrawArguments =
    IndexedArguments DrawIndexed
  | LinearArguments DrawLinear
  | IndirectArguments

record DrawItem =
  m_arguments :: DrawArguments
  m_stencilRef :: uint8_t
  m_pipelineState :: "PipelineState option"
  m_indexBufferView :: "nat option"
  m_streamBufferViews :: "nat list"

definition DrawItem_default :: DrawItem where
  "DrawItem_default =
     \<lparr>m_arguments = IndexedArguments DrawIndexed_default, m_stencilRef = 0,
      m_pipelineState = None, m_indexBufferView = None, m_streamBufferViews = []\<rparr>"

text \<open>
  Modelled from the spec: \<^verbatim>\<open>RHI::Viewport\<close>, \<^verbatim>\<open>RHI::Scissor\<close> and \<^verbatim>\<open>RHI::Size\<close> are
  declared outside the source files. Viewport coordinates are \<^verbatim>\<open>float\<close>s (the source
  converts to \<^verbatim>\<open>float\<close> on every assignment to them). Their type is the parameter \<open>'f\<close>;
  where an order is needed it is a linear order, the order of the floating-point numbers
  without the NaNs. Scissor coordinates are \<^verbatim>\<open>int32_t\<close>: 32-bit words read as signed numbers
  by \<open>sint\<close>. Image sizes are \<^verbatim>\<open>uint32_t\<close>: 32-bit words read by \<open>uint\<close>.
\<close>

record 'f Viewport =
  m_minX :: 'f
  m_maxX :: 'f
  m_minY :: 'f
  m_maxY :: 'f
  m_minZ :: 'f
  m_maxZ :: 'f

record Scissor =
  m_minX :: int32_t
  m_minY :: int32_t
  m_maxX :: int32_t
  m_maxY :: int32_t

record Size =
  m_width :: uint32_t
  m_height :: uint32_t
  m_depth :: uint32_t

definition Viewport_default :: "('f::{zero,one}) Viewport" where
  "Viewport_default =
     \<lparr>Viewport.m_minX = 0, m_maxX = 0, m_minY = 0, m_maxY = 0, m_minZ = 0, m_maxZ = 1\<rparr>"

definition Scissor_default :: Scissor where
  "Scissor_default =
     \<lparr>Scissor.m_minX = 0, m_minY = 0, m_maxX = 0x7FFFFFFF, m_maxY = 0x7FFFFFFF\<rparr>"

record 'f FramePrepareParams =
  m_viewportState :: "'f Viewport"
  m_scissorState :: Scissor

datatype AttachmentType = Image | Buffer

record PassAttachment =
  GetAttachmentType :: AttachmentType
  m_descriptor_image_size :: Size

subsection \<open>The pass\<close>

text \<open>
  The state of a pass: the members the source file reads and writes, and what the pass hands
  to its base class and to the engine. \<^verbatim>\<open>AZ_Error\<close> and \<^verbatim>\<open>AZ_Assert\<close> append to the log
  and execution goes on. The calls into the base class \<^verbatim>\<open>RenderPass\<close> are kept as a
  sequence, oldest first. The output and the input/output bindings each hold their attachment
  or null, and \<open>m_shaderReloadBus\<close> is the address at which the pass listens for shader
  reloads.
\<close>

datatype PassState = Uninitialized | Queued | Building | Initializing | Idle | Rendering

datatype LogEntry =
    Error_NoPassData string
  | Error_FailedToLoadShader string string
  | Error_ShaderNotLoaded
  | Assert_ReloadingShaderDuringRendering
  | Assert_FailedToCreateSrg string
  | Assert_OutputMustBeImage string

datatype RenderPassCall =
    QueueForInitialization
  | RenderPass_InitializeInternal
  | RenderPass_FrameBeginInternal

record 'f FullscreenTrianglePass =
  m_passDescriptor :: PassDescriptor
  m_shader :: "ShaderInstance option"
  m_stencilRef :: uint32_t
  m_pipelineStateForDraw :: PipelineStateForDraw
  m_shaderResourceGroup :: "ShaderResourceGroup option"
  m_drawShaderResourceGroup :: "ShaderResourceGroup option"
  m_item :: DrawItem
  m_viewportState :: "'f Viewport"
  m_scissorState :: Scissor
  m_state :: PassState
  m_outputBindings :: "PassAttachment option list"
  m_inputOutputBindings :: "PassAttachment option list"
  m_shaderResourceGroupsToBind :: "ShaderResourceGroup list"
  m_shaderReloadBus :: "AssetId option"
  m_renderPassCalls :: "RenderPassCall list"
  m_log :: "LogEntry list"

text \<open>
  Modelled from the spec: the engine services the pass calls are declared outside the source
  files and are parameters here. \<^verbatim>\<open>RPI::FindShaderAsset\<close> gives an asset handle whose
  identifier may be invalid; \<open>shaderAt\<close> is the current content of a shader object;
  \<^verbatim>\<open>Shader::FindOrCreate\<close>, \<^verbatim>\<open>ShaderResourceGroup::Create\<close> and
  \<^verbatim>\<open>PipelineStateForDraw::Finalize\<close> may give null; \<^verbatim>\<open>PassUtils::BindDataMappingsToSrg\<close>
  writes into the group it is handed.
\<close>

record Engine =
  FindShaderAsset :: "AssetId \<Rightarrow> string \<Rightarrow> ShaderAsset"
  Shader_FindOrCreate :: "ShaderAsset \<Rightarrow> ShaderInstance option"
  shaderAt :: "ShaderInstance \<Rightarrow> Shader"
  ShaderResourceGroup_Create :: "ShaderAsset \<Rightarrow> nat \<Rightarrow> string \<Rightarrow> ShaderResourceGroup option"
  BindDataMappingsToSrg ::
    "PassDescriptor \<Rightarrow> ShaderResourceGroup option \<Rightarrow> ShaderResourceGroup option"
  PipelineState_Finalize :: "PipelineStateForDraw \<Rightarrow> PipelineState option"

definition AZ_Log :: "LogEntry \<Rightarrow> 'f FullscreenTrianglePass \<Rightarrow> 'f FullscreenTrianglePass" where
  "AZ_Log entry p = p\<lparr>m_log := m_log p @ [entry]\<rparr>"

definition GetPathName :: "'f FullscreenTrianglePass \<Rightarrow> string" where
  "GetPathName p = m_passName (m_passDescriptor p)"

definition callRenderPass ::
  "RenderPassCall \<Rightarrow> 'f FullscreenTrianglePass \<Rightarrow> 'f FullscreenTrianglePass" where
  "callRenderPass c p = p\<lparr>m_renderPassCalls := m_renderPassCalls p @ [c]\<rparr>"

definition callPipeline ::
  "PipelineStateForDrawCall \<Rightarrow> 'f FullscreenTrianglePass \<Rightarrow> 'f FullscreenTrianglePass" where
  "callPipeline c p = p\<lparr>m_pipelineStateForDraw := m_pipelineStateForDraw p @ [c]\<rparr>"

definition UpdateSrgs :: "Engine \<Rightarrow> 'f FullscreenTrianglePass \<Rightarrow> 'f FullscreenTrianglePass" where
  "UpdateSrgs engine p =
     (case m_shader p of
        None \<Rightarrow> p
      | Some instance \<Rightarrow>
          let shader = shaderAt engine instance;
              p1 =
                (case FindShaderResourceGroupLayout shader Pass of
                   None \<Rightarrow> p
                 | Some passSrgLayout \<Rightarrow>
                     let pa = p\<lparr>m_shaderResourceGroup :=
                                  ShaderResourceGroup_Create engine (GetAsset shader)
                                    (GetSupervariantIndex shader) (GetName passSrgLayout)\<rparr>;
                         pb = (case m_shaderResourceGroup pa of
                                 None \<Rightarrow> AZ_Log (Assert_FailedToCreateSrg (GetPathName pa)) pa
                               | Some _ \<Rightarrow> pa)
                     in pb\<lparr>m_shaderResourceGroup :=
                             BindDataMappingsToSrg engine (m_passDescriptor pb)
                               (m_shaderResourceGroup pb)\<rparr>);
              compileDrawSrg = False;
              p2 = p1\<lparr>m_drawShaderResourceGroup := CreateDefaultDrawSrg shader compileDrawSrg\<rparr>
          in callPipeline (UpdateSrgVariantFallback (m_shaderResourceGroup p2)) p2)"

definition OnShaderReinitialized ::
  "Engine \<Rightarrow> ShaderInstance \<Rightarrow> 'f FullscreenTrianglePass \<Rightarrow> 'f FullscreenTrianglePass" where
  "OnShaderReinitialized engine shader p = UpdateSrgs engine p"

definition OnShaderAssetReinitialized ::
  "Engine \<Rightarrow> ShaderAsset \<Rightarrow> 'f FullscreenTrianglePass \<Rightarrow> 'f FullscreenTrianglePass" where
  "OnShaderAssetReinitialized engine shaderAsset p = UpdateSrgs engine p"

definition LoadShader :: "Engine \<Rightarrow> 'f FullscreenTrianglePass \<Rightarrow> 'f FullscreenTrianglePass" where
  "LoadShader engine p0 =
     (let p = (if m_state p0 = Rendering
               then AZ_Log Assert_ReloadingShaderDuringRendering p0 else p0)
      in case GetPassData (m_passDescriptor p) of
           None \<Rightarrow> AZ_Log (Error_NoPassData (GetPathName p)) p
         | Some passData \<Rightarrow>
             let shaderAsset =
                   (if AssetId_IsValid (m_assetId (m_shaderAsset passData))
                    then FindShaderAsset engine (m_assetId (m_shaderAsset passData))
                           (m_filePath (m_shaderAsset passData))
                    else ShaderAsset_default)
             in if \<not> AssetId_IsValid (GetId shaderAsset)
                then AZ_Log (Error_FailedToLoadShader (GetPathName p)
                               (m_filePath (m_shaderAsset passData))) p
                else
                  let p1 = p\<lparr>m_shader := Shader_FindOrCreate engine shaderAsset\<rparr>
                  in (case m_shader p1 of
                        None \<Rightarrow> AZ_Log (Error_FailedToLoadShader (GetPathName p1)
                                         (m_filePath (m_shaderAsset passData))) p1
                      | Some shader \<Rightarrow>
                          let p2 = p1\<lparr>FullscreenTrianglePass.m_stencilRef :=
                                        FullscreenTrianglePassData.m_stencilRef passData\<rparr>;
                              p3 = callPipeline (Init shader None) p2;
                              p4 = UpdateSrgs engine p3;
                              p5 = callRenderPass QueueForInitialization p4;
                              p6 = p5\<lparr>m_shaderReloadBus := None\<rparr>
                          in p6\<lparr>m_shaderReloadBus := Some (GetId shaderAsset)\<rparr>))"

text \<open>
  The members as they are before the constructor body runs: null handles, a default draw
  item, no calls made, nothing logged.
\<close>

definition newPass :: "PassDescriptor \<Rightarrow> ('f::{zero,one}) FullscreenTrianglePass" where
  "newPass descriptor =
     \<lparr>m_passDescriptor = descriptor, m_shader = None, m_stencilRef = 0,
      m_pipelineStateForDraw = [], m_shaderResourceGroup = None,
      m_drawShaderResourceGroup = None, m_item = DrawItem_default,
      m_viewportState = Viewport_default, m_scissorState = Scissor_default,
      m_state = Uninitialized, m_outputBindings = [], m_inputOutputBindings = [],
      m_shaderResourceGroupsToBind = [], m_shaderReloadBus = None,
      m_renderPassCalls = [], m_log = []\<rparr>"

definition FullscreenTrianglePass_ctor ::
  "Engine \<Rightarrow> PassDescriptor \<Rightarrow> ('f::{zero,one}) FullscreenTrianglePass" where
  "FullscreenTrianglePass_ctor engine descriptor = LoadShader engine (newPass descriptor)"

definition BuildDrawItem :: "Engine \<Rightarrow> 'f FullscreenTrianglePass \<Rightarrow> 'f FullscreenTrianglePass" where
  "BuildDrawItem engine p =
     (let p1 = callPipeline SetOutputFromPass p;
          inputStreamLayout =
            InputStreamLayout_Finalize (SetTopology TriangleList InputStreamLayout_default);
          p2 = callPipeline (SetInputStreamLayout inputStreamLayout) p1;
          draw = DrawLinear_default\<lparr>m_vertexCount := 3\<rparr>;
          pipelineState = PipelineState_Finalize engine (m_pipelineStateForDraw p2);
          p3 = callPipeline Finalize p2
      in p3\<lparr>m_item := (m_item p3)
                \<lparr>m_arguments := LinearArguments draw,
                 m_pipelineState := pipelineState,
                 DrawItem.m_stencilRef := ucast (FullscreenTrianglePass.m_stencilRef p3)\<rparr>\<rparr>)"

definition UpdateShaderOptions ::
  "Engine \<Rightarrow> ShaderOptionList \<Rightarrow> 'f FullscreenTrianglePass \<Rightarrow> 'f FullscreenTrianglePass" where
  "UpdateShaderOptions engine shaderOptions p =
     (case m_shader p of
        None \<Rightarrow> p
      | Some shader \<Rightarrow>
          let p1 = callPipeline (Init shader (Some shaderOptions)) p;
              p2 = callPipeline (UpdateSrgVariantFallback (m_shaderResourceGroup p1)) p1
          in BuildDrawItem engine p2)"

definition InitializeInternal ::
  "Engine \<Rightarrow> 'f FullscreenTrianglePass \<Rightarrow> 'f FullscreenTrianglePass" where
  "InitializeInternal engine p =
     (let p1 = callRenderPass RenderPass_InitializeInternal p
      in case m_shader p1 of
           None \<Rightarrow> AZ_Log Error_ShaderNotLoaded p1
         | Some _ \<Rightarrow> BuildDrawItem engine p1)"

subsection \<open>Per-frame work: clamping, frame graph, command list\<close>

text \<open>
  Modelled from the spec: \<^verbatim>\<open>AZStd::min\<close> is declared in the engine's standard library,
  outside the source files. It answers the smaller of two values of one type under that
  type's \<open><\<close>, and the left one when neither is smaller. On \<^verbatim>\<open>int32_t\<close> the comparison is
  the signed one.
\<close>

definition AZStd_min :: "'a::ord \<Rightarrow> 'a \<Rightarrow> 'a" where
  "AZStd_min left right = (if right < left then right else left)"

definition AZStd_min_int32 :: "int32_t \<Rightarrow> int32_t \<Rightarrow> int32_t" where
  "AZStd_min_int32 left right = (if sint right < sint left then right else left)"

text \<open>
  The conversions of the source. Between \<^verbatim>\<open>int32_t\<close> and \<^verbatim>\<open>uint32_t\<close> the 32 bits stay
  and only their reading changes (\<open>sint\<close> against \<open>uint\<close>). The two conversions between
  \<^verbatim>\<open>float\<close> and \<^verbatim>\<open>uint32_t\<close> are parameters of the model.
\<close>

definition int32_to_uint32 :: "int32_t \<Rightarrow> uint32_t" where
  "int32_to_uint32 x = x"

definition uint32_to_int32 :: "uint32_t \<Rightarrow> int32_t" where
  "uint32_to_int32 x = x"

record 'f FloatCasts =
  float_to_uint32 :: "'f \<Rightarrow> uint32_t"
  uint32_to_float :: "uint32_t \<Rightarrow> 'f"

text \<open>
  \<^verbatim>\<open>FrameBeginInternal\<close> takes the attachment of the first output binding, or else of
  the first input/output binding, and reads the image size through that pointer: with no
  binding, or a binding without attachment, that is a null dereference, the one fault of the
  model. For an attachment that is not an image the assertion is logged and the size is read
  all the same.
\<close>

datatype PassFault = NullAttachmentDereferenced

definition GetOutputAttachment :: "'f FullscreenTrianglePass \<Rightarrow> PassAttachment option" where
  "GetOutputAttachment p =
     (case m_outputBindings p of
        binding # _ \<Rightarrow> binding
      | [] \<Rightarrow> (case m_inputOutputBindings p of
                 binding # _ \<Rightarrow> binding
               | [] \<Rightarrow> None))"

definition FrameBeginInternal ::
  "('f::ord) FloatCasts \<Rightarrow> 'f FramePrepareParams \<Rightarrow> 'f FullscreenTrianglePass
     \<Rightarrow> PassFault + 'f FullscreenTrianglePass" where
  "FrameBeginInternal casts params p =
     (case GetOutputAttachment p of
        None \<Rightarrow> Inl NullAttachmentDereferenced
      | Some outputAttachment \<Rightarrow>
          let p0 = (if GetAttachmentType outputAttachment = Image then p
                    else AZ_Log (Assert_OutputMustBeImage (GetPathName p)) p);
              targetImageSize = m_descriptor_image_size outputAttachment;
              pv = FramePrepareParams.m_viewportState params;
              ps = FramePrepareParams.m_scissorState params;
              v1 = (FullscreenTrianglePass.m_viewportState p0)
                     \<lparr>Viewport.m_maxX := uint32_to_float casts
                        (AZStd_min (float_to_uint32 casts (Viewport.m_maxX pv))
                           (m_width targetImageSize))\<rparr>;
              v2 = v1\<lparr>Viewport.m_maxY := uint32_to_float casts
                        (AZStd_min (float_to_uint32 casts (Viewport.m_maxY pv))
                           (m_height targetImageSize))\<rparr>;
              v3 = v2\<lparr>Viewport.m_minX := AZStd_min (Viewport.m_minX pv) (Viewport.m_maxX v2)\<rparr>;
              v4 = v3\<lparr>Viewport.m_minY := AZStd_min (Viewport.m_minY pv) (Viewport.m_maxY v3)\<rparr>;
              s1 = (FullscreenTrianglePass.m_scissorState p0)
                     \<lparr>Scissor.m_maxX := uint32_to_int32
                        (AZStd_min (int32_to_uint32 (Scissor.m_maxX ps))
                           (m_width targetImageSize))\<rparr>;
              s2 = s1\<lparr>Scissor.m_maxY := uint32_to_int32
                        (AZStd_min (int32_to_uint32 (Scissor.m_maxY ps))
                           (m_height targetImageSize))\<rparr>;
              s3 = s2\<lparr>Scissor.m_minX := AZStd_min_int32 (Scissor.m_minX ps) (Scissor.m_maxX s2)\<rparr>;
              s4 = s3\<lparr>Scissor.m_minY := AZStd_min_int32 (Scissor.m_minY ps) (Scissor.m_maxY s3)\<rparr>
          in Inr (callRenderPass RenderPass_FrameBeginInternal
                    (p0\<lparr>FullscreenTrianglePass.m_viewportState := v4,
                        FullscreenTrianglePass.m_scissorState := s4\<rparr>)))"

text \<open>
  The frame graph: the pass sets the estimated item count after the base class has declared
  its attachments. What the base class declares is a parameter.
\<close>

record FrameGraph =
  m_estimatedItemCount :: uint32_t
  m_declarations :: "nat list"

definition SetEstimatedItemCount :: "uint32_t \<Rightarrow> FrameGraph \<Rightarrow> FrameGraph" where
  "SetEstimatedItemCount itemCount frameGraph = frameGraph\<lparr>m_estimatedItemCount := itemCount\<rparr>"

definition SetupFrameGraphDependencies ::
  "('f FullscreenTrianglePass \<Rightarrow> FrameGraph \<Rightarrow> FrameGraph)
     \<Rightarrow> 'f FullscreenTrianglePass \<Rightarrow> FrameGraph \<Rightarrow> FrameGraph" where
  "SetupFrameGraphDependencies RenderPass_SetupFrameGraphDependencies p frameGraph =
     SetEstimatedItemCount 1 (RenderPass_SetupFrameGraphDependencies p frameGraph)"

text \<open>
  Modelled from the spec: \<^verbatim>\<open>RHI::CommandList\<close> and \<^verbatim>\<open>RenderPass::SetSrgsForDraw\<close> are
  declared outside the source files. The command list is the sequence of commands recorded
  into it, oldest first. \<^verbatim>\<open>SetSrgsForDraw\<close> sets the bound resource groups for the draw and
  records no draw itself.
\<close>

datatype 'f Command =
    SetShaderResourceGroupForDraw ShaderResourceGroup
  | SetViewport "'f Viewport"
  | SetScissor Scissor
  | Submit DrawItem

definition SetSrgsForDraw :: "'f FullscreenTrianglePass \<Rightarrow> 'f Command list" where
  "SetSrgsForDraw p = map SetShaderResourceGroupForDraw (m_shaderResourceGroupsToBind p)"

definition BuildCommandListInternal ::
  "'f FullscreenTrianglePass \<Rightarrow> 'f Command list \<Rightarrow> 'f Command list" where
  "BuildCommandListInternal p commandList =
     commandList @ SetSrgsForDraw p
       @ [SetViewport (FullscreenTrianglePass.m_viewportState p),
          SetScissor (FullscreenTrianglePass.m_scissorState p),
          Submit (m_item p)]"

fun submitted :: "'f Command list \<Rightarrow> DrawItem list" where
  "submitted [] = []"
| "submitted (Submit item # commands) = item # submitted commands"
| "submitted (_ # commands) = submitted commands"

text \<open>
  The shader reference of a descriptor fails to resolve when the pass data is missing or of
  another class, when the asset identifier is invalid or the asset is not found, or when
  \<^verbatim>\<open>Shader::FindOrCreate\<close> answers null: the three tests of \<^verbatim>\<open>LoadShader\<close>, in its order.
\<close>

definition shaderReferenceFails :: "Engine \<Rightarrow> PassDescriptor \<Rightarrow> bool" where
  "shaderReferenceFails engine descriptor =
     (case GetPassData descriptor of
        None \<Rightarrow> True
      | Some passData \<Rightarrow>
          \<not> AssetId_IsValid (m_assetId (m_shaderAsset passData))
          \<or> (let shaderAsset = FindShaderAsset engine (m_assetId (m_shaderAsset passData))
                                  (m_filePath (m_shaderAsset passData))
              in \<not> AssetId_IsValid (GetId shaderAsset)
                 \<or> Shader_FindOrCreate engine shaderAsset = None))"

fun isError :: "LogEntry \<Rightarrow> bool" where
  "isError (Error_NoPassData _) = True"
| "isError (Error_FailedToLoadShader _ _) = True"
| "isError Error_ShaderNotLoaded = True"
| "isError _ = False"

subsection \<open>A small configuration for evaluating the pass\<close>

text \<open>
  One shader asset that loads as shader object 0. The content of that object is an argument
  of the engine, so that a hot reload is the same engine with another content. The sample
  conversions between \<^verbatim>\<open>float\<close> and \<^verbatim>\<open>uint32_t\<close> work on real numbers: the conversion to
  the integer takes the floor, which drops the fraction of the non-negative values it is used
  on, and the conversion back is exact, as it is in C++ below \<open>2 ^ 24\<close>.
\<close>

definition sampleAssetId :: AssetId where
  "sampleAssetId = AssetId 1 0"

definition sampleDrawSrg :: ShaderResourceGroup where
  "sampleDrawSrg =
     \<lparr>srg_asset = ShaderAsset sampleAssetId, srg_supervariantIndex = 0,
      srg_layoutName = ''DrawSrg'', srg_data = []\<rparr>"

definition sampleShader :: Shader where
  "sampleShader =
     \<lparr>GetAsset = ShaderAsset sampleAssetId, GetSupervariantIndex = 0,
      FindShaderResourceGroupLayout =
        (\<lambda>slot. if slot = Pass then Some \<lparr>GetName = ''PassSrg''\<rparr> else None),
      CreateDefaultDrawSrg = (\<lambda>compile. Some sampleDrawSrg)\<rparr>"

definition sampleShaderWithoutPassSrg :: Shader where
  "sampleShaderWithoutPassSrg =
     sampleShader\<lparr>FindShaderResourceGroupLayout := (\<lambda>slot. None)\<rparr>"

definition sampleEngine :: "Shader \<Rightarrow> Engine" where
  "sampleEngine content =
     \<lparr>FindShaderAsset = (\<lambda>assetId filePath. ShaderAsset assetId),
      Shader_FindOrCreate =
        (\<lambda>asset. if GetId asset = sampleAssetId then Some 0 else None),
      shaderAt = (\<lambda>instance. content),
      ShaderResourceGroup_Create =
        (\<lambda>asset supervariantIndex name.
           Some \<lparr>srg_asset = asset, srg_supervariantIndex = supervariantIndex,
                 srg_layoutName = name, srg_data = []\<rparr>),
      BindDataMappingsToSrg =
        (\<lambda>descriptor srg.
           map_option (\<lambda>g. g\<lparr>srg_data := [(''m_pass'', m_passName descriptor)]\<rparr>) srg),
      PipelineState_Finalize = (\<lambda>calls. Some (length calls))\<rparr>"

definition sampleDescriptor :: PassDescriptor where
  "sampleDescriptor =
     \<lparr>m_passName = ''FullscreenCopy'',
      m_passData = Some (FullscreenTriangleData
        \<lparr>m_shaderAsset = \<lparr>m_filePath = ''FullscreenCopy.azshader'', m_assetId = sampleAssetId\<rparr>,
         m_stencilRef = 0\<rparr>)\<rparr>"

definition emptyDescriptor :: PassDescriptor where
  "emptyDescriptor = \<lparr>m_passName = ''FullscreenCopy'', m_passData = None\<rparr>"






subsection \<open>Floating-point coordinates with NaN\<close>

text \<open>
  Modelled from the spec: the C++ type \<^verbatim>\<open>float\<close> of the viewport coordinates, as far as its
  comparisons go. A value is a number, one of the two infinities or a NaN. \<open><\<close> is the
  order of the numbers and infinities; every comparison with a NaN is false, also
  \<open>NaN \<le> NaN\<close>, so the type is an instance of the order syntax only. The sample conversions
  drop the fraction towards zero and convert back exactly; what they answer for an infinity
  or a NaN is not used.
\<close>

datatype float = NaN | NegInf | Finite real | PosInf

fun float_less :: "float \<Rightarrow> float \<Rightarrow> bool" where
  "float_less (Finite a) (Finite b) = (a < b)"
| "float_less NegInf (Finite b) = True"
| "float_less NegInf PosInf = True"
| "float_less (Finite a) PosInf = True"
| "float_less _ _ = False"

instantiation float :: "{zero, one, ord}"
begin

definition zero_float :: float where
  "zero_float = Finite 0"

definition one_float :: float where
  "one_float = Finite 1"

definition less_float :: "float \<Rightarrow> float \<Rightarrow> bool" where
  "less_float x y = float_less x y"

definition less_eq_float :: "float \<Rightarrow> float \<Rightarrow> bool" where
  "less_eq_float x y = (float_less x y \<or> (x = y \<and> x \<noteq> NaN))"

instance ..

end





section \<open>Properties of GraphDocumentView\<close>

subsection \<open>Closed and destroyed notifications\<close>

lemma SetActiveGraphId_fields:
  "m_activeGraphId (SetActiveGraphId g n v) = g"
  "m_documentId (SetActiveGraphId g n v) = m_documentId v"
  "m_openedBefore (SetActiveGraphId g n v) = m_openedBefore v"
  "m_canvasCalls (SetActiveGraphId g n v) = m_canvasCalls v @ [SetActiveGraphIdCall g n]"
  by (simp_all add: SetActiveGraphId_def)

lemma EntityId_default_invalid: "\<not> IsValid EntityId_default"
  by (simp add: IsValid_def EntityId_default_def)

lemma sampleView_eq:
  "sampleView =
     \<lparr>m_toolId = 1, m_documentId = 42, m_openedBefore = False,
      m_activeGraphId = EntityId_default, m_busConnected = Some 1,
      m_canvasCalls = [SetActiveGraphIdCall EntityId_default True]\<rparr>"
  by (simp add: sampleView_def GraphDocumentView_ctor_def OnDocumentOpened_def Let_def
      SetActiveGraphId_def documentBus_def EventResult_def EntityId_default_invalid)

text \<open>
  C7. A "closed" or a "destroyed" notification for the tracked document deactivates the
  canvas: the active graph identifier becomes the default, invalid one. A notification for
  any other document leaves the view, and so the activation, as it was.
\<close>

theorem closed_destroyed_deactivate:
  "m_activeGraphId (OnDocumentClosed (m_documentId v) v) = EntityId_default
   \<and> m_activeGraphId (OnDocumentDestroyed (m_documentId v) v) = EntityId_default
   \<and> \<not> IsValid (m_activeGraphId (OnDocumentClosed (m_documentId v) v))
   \<and> \<not> IsValid (m_activeGraphId (OnDocumentDestroyed (m_documentId v) v))
   \<and> m_canvasCalls (OnDocumentClosed (m_documentId v) v)
       = m_canvasCalls v @ [SetActiveGraphIdCall EntityId_default True]
   \<and> m_canvasCalls (OnDocumentDestroyed (m_documentId v) v)
       = m_canvasCalls v @ [SetActiveGraphIdCall EntityId_default True]
   \<and> (\<forall>d. d \<noteq> m_documentId v \<longrightarrow> OnDocumentClosed d v = v \<and> OnDocumentDestroyed d v = v)"
  by (auto simp: OnDocumentClosed_def OnDocumentDestroyed_def SetActiveGraphId_fields
      EntityId_default_invalid)

theorem closed_destroyed_deactivate_witness:
  "(7 :: Uuid) \<noteq> m_documentId sampleView
   \<and> OnDocumentClosed 7 sampleView = sampleView
   \<and> OnDocumentDestroyed 7 sampleView = sampleView
   \<and> m_activeGraphId (OnDocumentClosed 42 sampleView) = EntityId_default
   \<and> m_activeGraphId (OnDocumentDestroyed 42 sampleView) = EntityId_default"
  using closed_destroyed_deactivate [of sampleView]
  by (simp add: sampleView_eq)

subsection \<open>Opened notifications\<close>

text \<open>
  C9. An "opened" notification for a document other than the tracked one deactivates the
  canvas: the active graph identifier becomes the default, invalid one, through a
  \<^verbatim>\<open>SetActiveGraphId\<close> call without notification and without any centering call, and the
  tracked identifier and \<open>m_openedBefore\<close> stay as they were.
\<close>

theorem opened_other_document_deactivates:
  assumes "documentId \<noteq> m_documentId v"
  shows "OnDocumentOpened bus documentId v =
           v\<lparr>m_activeGraphId := EntityId_default,
             m_canvasCalls := m_canvasCalls v @ [SetActiveGraphIdCall EntityId_default False]\<rparr>
         \<and> m_activeGraphId (OnDocumentOpened bus documentId v) = EntityId_default
         \<and> \<not> IsValid (m_activeGraphId (OnDocumentOpened bus documentId v))
         \<and> centerings (OnDocumentOpened bus documentId v) = centerings v
         \<and> m_documentId (OnDocumentOpened bus documentId v) = m_documentId v
         \<and> m_openedBefore (OnDocumentOpened bus documentId v) = m_openedBefore v"
  using assms
  by (auto simp: OnDocumentOpened_def SetActiveGraphId_def centerings_def
      EntityId_default_invalid)

theorem opened_other_document_deactivates_witness:
  "(7 :: Uuid) \<noteq> m_documentId sampleView
   \<and> m_activeGraphId (OnDocumentOpened (documentBus (Some (EntityId 5))) 7 sampleView)
       = EntityId_default
   \<and> centerings (OnDocumentOpened (documentBus (Some (EntityId 5))) 7 sampleView)
       = centerings sampleView
   \<and> m_documentId (OnDocumentOpened (documentBus (Some (EntityId 5))) 7 sampleView) = 42
   \<and> \<not> m_openedBefore (OnDocumentOpened (documentBus (Some (EntityId 5))) 7 sampleView)"
proof -
  have other: "(7 :: Uuid) \<noteq> m_documentId sampleView"
    by (simp add: sampleView_eq)
  have doc: "m_documentId sampleView = 42" and ob: "\<not> m_openedBefore sampleView"
    by (simp_all add: sampleView_eq)
  note opened =
    opened_other_document_deactivates [OF other, of "documentBus (Some (EntityId 5))"]
  from opened have
    "m_activeGraphId (OnDocumentOpened (documentBus (Some (EntityId 5))) 7 sampleView)
       = EntityId_default"
    and "centerings (OnDocumentOpened (documentBus (Some (EntityId 5))) 7 sampleView)
       = centerings sampleView"
    and "m_documentId (OnDocumentOpened (documentBus (Some (EntityId 5))) 7 sampleView)
       = m_documentId sampleView"
    and "m_openedBefore (OnDocumentOpened (documentBus (Some (EntityId 5))) 7 sampleView)
       = m_openedBefore sampleView"
    by blast+
  with other doc ob show ?thesis by simp
qed

lemma fetchedGraphId_cong:
  "m_documentId v' = m_documentId v \<Longrightarrow> fetchedGraphId v' bus = fetchedGraphId v bus"
  by (simp add: fetchedGraphId_def)

lemma openTracked_calls:
  "m_canvasCalls (openTracked v bus) =
     m_canvasCalls v @ SetActiveGraphIdCall (fetchedGraphId v bus) True #
       (if \<not> m_openedBefore v \<and> IsValid (fetchedGraphId v bus)
        then [ShowEntireGraph (EventResult EntityId_default (GetViewId bus (fetchedGraphId v bus)))]
        else [])"
  by (simp add: openTracked_def OnDocumentOpened_def fetchedGraphId_def Let_def
      SetActiveGraphId_fields)

lemma openTracked_fields:
  "m_documentId (openTracked v bus) = m_documentId v"
  "m_openedBefore (openTracked v bus) = (m_openedBefore v \<or> IsValid (fetchedGraphId v bus))"
  "m_activeGraphId (openTracked v bus) = fetchedGraphId v bus"
  by (auto simp: openTracked_def OnDocumentOpened_def fetchedGraphId_def Let_def
      SetActiveGraphId_fields)

lemma openTrackedAll_documentId:
  "m_documentId (openTrackedAll v buses) = m_documentId v"
  unfolding openTrackedAll_def
  by (induction buses arbitrary: v) (simp_all add: openTracked_fields)

lemma openTrackedAll_openedBefore:
  "m_openedBefore (openTrackedAll v buses) =
     (m_openedBefore v \<or> (\<exists>bus \<in> set buses. IsValid (fetchedGraphId v bus)))"
  unfolding openTrackedAll_def
proof (induction buses arbitrary: v)
  case Nil
  show ?case by simp
next
  case (Cons bus buses)
  have "\<And>b. fetchedGraphId (openTracked v bus) b = fetchedGraphId v b"
    by (rule fetchedGraphId_cong) (simp add: openTracked_fields)
  then show ?case
    by (auto simp: Cons.IH openTracked_fields)
qed

lemma openedBefore_prefix:
  assumes "i \<le> length buses"
  shows "m_openedBefore (openTrackedAll v (take i buses)) =
     (m_openedBefore v \<or> (\<exists>j<i. IsValid (fetchedGraphId v (buses ! j))))"
proof -
  have "(\<exists>bus \<in> set (take i buses). IsValid (fetchedGraphId v bus)) =
        (\<exists>j<i. IsValid (fetchedGraphId v (buses ! j)))"
  proof
    assume "\<exists>bus \<in> set (take i buses). IsValid (fetchedGraphId v bus)"
    then obtain j where "j < length (take i buses)"
      and "IsValid (fetchedGraphId v (take i buses ! j))"
      by (auto simp: in_set_conv_nth)
    then show "\<exists>j<i. IsValid (fetchedGraphId v (buses ! j))"
      by auto
  next
    assume "\<exists>j<i. IsValid (fetchedGraphId v (buses ! j))"
    then obtain j where j: "j < i" "IsValid (fetchedGraphId v (buses ! j))"
      by blast
    have "take i buses ! j \<in> set (take i buses)"
      using assms j(1) by (intro nth_mem) simp
    then show "\<exists>bus \<in> set (take i buses). IsValid (fetchedGraphId v bus)"
      using j by auto
  qed
  then show ?thesis by (simp add: openTrackedAll_openedBefore)
qed

lemma centerings_openTracked:
  "centerings (openTracked v bus) =
     centerings v + (if \<not> m_openedBefore v \<and> IsValid (fetchedGraphId v bus) then 1 else 0)"
  by (simp add: centerings_def openTracked_calls)

lemma ctor_openedBefore:
  "m_openedBefore (GraphDocumentView_ctor bus toolId documentId openedBefore0) = False"
  by (simp add: GraphDocumentView_ctor_def Let_def)

text \<open>
  C4. In a run of "opened" notifications for the tracked document, each notification fetches
  the graph identifier the document answers at that moment and makes it the active graph of
  the canvas (\<^verbatim>\<open>SetActiveGraphId\<close> with notification). \<^verbatim>\<open>ShowEntireGraph\<close> is sent at the
  notification exactly when the view had not centered before the run, the fetched graph is
  valid and no earlier notification of the run fetched a valid graph: on the first open of a
  valid graph and on no later one. A view leaves its constructor with \<open>m_openedBefore\<close>
  cleared (\<open>ctor_openedBefore\<close>).
\<close>

theorem opened_tracked_centers_once:
  assumes "i < length buses"
  shows "(let before = openTrackedAll v (take i buses);
              bus = buses ! i;
              g = fetchedGraphId v bus;
              first = (\<not> m_openedBefore v \<and> IsValid g
                        \<and> (\<forall>j<i. \<not> IsValid (fetchedGraphId v (buses ! j))))
          in m_activeGraphId (openTracked before bus) = g
           \<and> m_canvasCalls (openTracked before bus) =
               m_canvasCalls before @ SetActiveGraphIdCall g True #
                 (if first then [ShowEntireGraph (EventResult EntityId_default (GetViewId bus g))]
                  else [])
           \<and> centerings (openTracked before bus) = centerings before + (if first then 1 else 0))"
proof -
  define before where "before = openTrackedAll v (take i buses)"
  define g where "g = fetchedGraphId v (buses ! i)"
  have doc: "m_documentId before = m_documentId v"
    by (simp add: before_def openTrackedAll_documentId)
  have g: "fetchedGraphId before (buses ! i) = g"
    unfolding g_def by (rule fetchedGraphId_cong [OF doc])
  have ob: "m_openedBefore before =
     (m_openedBefore v \<or> (\<exists>j<i. IsValid (fetchedGraphId v (buses ! j))))"
    unfolding before_def using assms by (intro openedBefore_prefix) simp
  have "m_activeGraphId (openTracked before (buses ! i)) = g"
    by (simp add: openTracked_fields g)
  moreover have "m_canvasCalls (openTracked before (buses ! i)) =
           m_canvasCalls before @ SetActiveGraphIdCall g True #
             (if \<not> m_openedBefore v \<and> IsValid g \<and> (\<forall>j<i. \<not> IsValid (fetchedGraphId v (buses ! j)))
              then [ShowEntireGraph (EventResult EntityId_default (GetViewId (buses ! i) g))]
              else [])"
    by (auto simp: openTracked_calls g ob)
  moreover have "centerings (openTracked before (buses ! i)) =
           centerings before +
             (if \<not> m_openedBefore v \<and> IsValid g \<and> (\<forall>j<i. \<not> IsValid (fetchedGraphId v (buses ! j)))
              then 1 else 0)"
    by (auto simp: centerings_openTracked g ob)
  ultimately show ?thesis
    unfolding Let_def before_def [symmetric] g_def [symmetric] by blast
qed


theorem opened_tracked_centers_once_witness:
  "(1 :: nat) < length sampleOpens \<and> (2 :: nat) < length sampleOpens
   \<and> m_activeGraphId (openTracked (openTrackedAll sampleView (take 1 sampleOpens))
        (sampleOpens ! 1)) = EntityId 5
   \<and> centerings (openTracked (openTrackedAll sampleView (take 1 sampleOpens)) (sampleOpens ! 1))
       = centerings (openTrackedAll sampleView (take 1 sampleOpens)) + 1
   \<and> centerings (openTracked (openTrackedAll sampleView (take 2 sampleOpens)) (sampleOpens ! 2))
       = centerings (openTrackedAll sampleView (take 2 sampleOpens))"
proof -
  have valid: "IsValid (EntityId 5)" "IsValid (EntityId 6)"
    by (simp_all add: IsValid_def InvalidEntityId_def)
  have fetched: "fetchedGraphId sampleView (documentBus None) = EntityId_default"
    "fetchedGraphId sampleView (documentBus (Some (EntityId 5))) = EntityId 5"
    "fetchedGraphId sampleView (documentBus (Some (EntityId 6))) = EntityId 6"
    by (simp_all add: fetchedGraphId_def documentBus_def EventResult_def)
  have len: "(1 :: nat) < length sampleOpens" "(2 :: nat) < length sampleOpens"
    "Suc 0 < length sampleOpens"
    by (simp_all add: sampleOpens_def)
  have ob: "\<not> m_openedBefore sampleView"
    by (simp add: sampleView_eq)
  have nth: "sampleOpens ! 0 = documentBus None"
    "sampleOpens ! 1 = documentBus (Some (EntityId 5))"
    "sampleOpens ! 2 = documentBus (Some (EntityId 6))"
    "sampleOpens ! Suc 0 = documentBus (Some (EntityId 5))"
    by (simp_all add: sampleOpens_def)
  have one: "(\<forall>j<1::nat. \<not> IsValid (fetchedGraphId sampleView (sampleOpens ! j)))"
    by (simp add: nth fetched EntityId_default_invalid)
  have two: "\<not> (\<forall>j<2::nat. \<not> IsValid (fetchedGraphId sampleView (sampleOpens ! j)))"
  proof
    assume "\<forall>j<2::nat. \<not> IsValid (fetchedGraphId sampleView (sampleOpens ! j))"
    then have "\<not> IsValid (fetchedGraphId sampleView (sampleOpens ! Suc 0))" by simp
    then show False by (simp add: nth fetched valid)
  qed
  show ?thesis
    using opened_tracked_centers_once [OF len(1), of sampleView]
      opened_tracked_centers_once [OF len(2), of sampleView]
    by (simp add: Let_def len ob one two nth fetched valid EntityId_default_invalid)
qed

section \<open>Properties of FullscreenTrianglePass\<close>

subsection \<open>Clamping the viewport and the scissor\<close>

lemma AZStd_min_le_right: "AZStd_min (a :: 'a :: linorder) b \<le> b"
  by (auto simp: AZStd_min_def)


lemma AZStd_min_int32_le_right: "sint (AZStd_min_int32 a b) \<le> sint b"
  by (simp add: AZStd_min_int32_def)



lemma FrameBeginInternal_Inr:
  assumes "GetOutputAttachment p = Some outputAttachment"
  shows "\<exists>p'. FrameBeginInternal casts params p = Inr p'"
  using assms by (simp add: FrameBeginInternal_def Let_def)

lemma FrameBeginInternal_viewport:
  assumes "FrameBeginInternal casts params p = Inr p'"
  shows "\<exists>outputAttachment. GetOutputAttachment p = Some outputAttachment \<and>
    Viewport.m_maxX (FullscreenTrianglePass.m_viewportState p') =
      uint32_to_float casts (AZStd_min
        (float_to_uint32 casts (Viewport.m_maxX (FramePrepareParams.m_viewportState params)))
        (m_width (m_descriptor_image_size outputAttachment))) \<and>
    Viewport.m_maxY (FullscreenTrianglePass.m_viewportState p') =
      uint32_to_float casts (AZStd_min
        (float_to_uint32 casts (Viewport.m_maxY (FramePrepareParams.m_viewportState params)))
        (m_height (m_descriptor_image_size outputAttachment))) \<and>
    Viewport.m_minX (FullscreenTrianglePass.m_viewportState p') =
      AZStd_min (Viewport.m_minX (FramePrepareParams.m_viewportState params))
        (Viewport.m_maxX (FullscreenTrianglePass.m_viewportState p')) \<and>
    Viewport.m_minY (FullscreenTrianglePass.m_viewportState p') =
      AZStd_min (Viewport.m_minY (FramePrepareParams.m_viewportState params))
        (Viewport.m_maxY (FullscreenTrianglePass.m_viewportState p'))"
  using assms
  by (auto simp: FrameBeginInternal_def Let_def callRenderPass_def AZ_Log_def
      split: option.splits)

lemma FrameBeginInternal_scissor:
  assumes "FrameBeginInternal casts params p = Inr p'"
  shows "\<exists>outputAttachment. GetOutputAttachment p = Some outputAttachment \<and>
    Scissor.m_maxX (FullscreenTrianglePass.m_scissorState p') =
      uint32_to_int32 (AZStd_min
        (int32_to_uint32 (Scissor.m_maxX (FramePrepareParams.m_scissorState params)))
        (m_width (m_descriptor_image_size outputAttachment))) \<and>
    Scissor.m_maxY (FullscreenTrianglePass.m_scissorState p') =
      uint32_to_int32 (AZStd_min
        (int32_to_uint32 (Scissor.m_maxY (FramePrepareParams.m_scissorState params)))
        (m_height (m_descriptor_image_size outputAttachment))) \<and>
    Scissor.m_minX (FullscreenTrianglePass.m_scissorState p') =
      AZStd_min_int32 (Scissor.m_minX (FramePrepareParams.m_scissorState params))
        (Scissor.m_maxX (FullscreenTrianglePass.m_scissorState p')) \<and>
    Scissor.m_minY (FullscreenTrianglePass.m_scissorState p') =
      AZStd_min_int32 (Scissor.m_minY (FramePrepareParams.m_scissorState params))
        (Scissor.m_maxY (FullscreenTrianglePass.m_scissorState p'))"
  using assms
  by (auto simp: FrameBeginInternal_def Let_def callRenderPass_def AZ_Log_def
      split: option.splits)









text \<open>
  In a coordinate type that is linearly ordered, so without NaN, both rectangles come out
  ordered whatever the conversions are.
\<close>

lemma FrameBeginInternal_ordered_linorder:
  fixes casts :: "('f :: linorder) FloatCasts"
  assumes "GetOutputAttachment p = Some outputAttachment"
  shows "\<exists>p'. FrameBeginInternal casts params p = Inr p'
    \<and> Viewport.m_minX (FullscreenTrianglePass.m_viewportState p')
        \<le> Viewport.m_maxX (FullscreenTrianglePass.m_viewportState p')
    \<and> Viewport.m_minY (FullscreenTrianglePass.m_viewportState p')
        \<le> Viewport.m_maxY (FullscreenTrianglePass.m_viewportState p')
    \<and> sint (Scissor.m_minX (FullscreenTrianglePass.m_scissorState p'))
        \<le> sint (Scissor.m_maxX (FullscreenTrianglePass.m_scissorState p'))
    \<and> sint (Scissor.m_minY (FullscreenTrianglePass.m_scissorState p'))
        \<le> sint (Scissor.m_maxY (FullscreenTrianglePass.m_scissorState p'))"
proof -
  obtain p' where run: "FrameBeginInternal casts params p = Inr p'"
    using FrameBeginInternal_Inr [OF assms] by blast
  from FrameBeginInternal_viewport [OF run]
  have "Viewport.m_minX (FullscreenTrianglePass.m_viewportState p')
        \<le> Viewport.m_maxX (FullscreenTrianglePass.m_viewportState p')"
   and "Viewport.m_minY (FullscreenTrianglePass.m_viewportState p')
        \<le> Viewport.m_maxY (FullscreenTrianglePass.m_viewportState p')"
    by (metis AZStd_min_le_right)+
  moreover from FrameBeginInternal_scissor [OF run]
  have "sint (Scissor.m_minX (FullscreenTrianglePass.m_scissorState p'))
        \<le> sint (Scissor.m_maxX (FullscreenTrianglePass.m_scissorState p'))"
   and "sint (Scissor.m_minY (FullscreenTrianglePass.m_scissorState p'))
        \<le> sint (Scissor.m_maxY (FullscreenTrianglePass.m_scissorState p'))"
    by (metis AZStd_min_int32_le_right)+
  ultimately show ?thesis using run by blast
qed


















subsection \<open>Loading the shader, reloads and the draw item\<close>

lemma UpdateSrgs_no_shader: "m_shader p = None \<Longrightarrow> UpdateSrgs engine p = p"
  by (simp add: UpdateSrgs_def)

text \<open>
  C10. While \<open>m_shader\<close> is null, \<^verbatim>\<open>UpdateSrgs\<close> returns the pass as it was, and so do the
  two shader-reload notifications, which only call it: the two resource groups and the
  pipeline state stay unchanged. \<^verbatim>\<open>UpdateShaderOptions\<close> changes nothing either.
\<close>

theorem no_shader_no_update:
  assumes "m_shader p = None"
  shows "UpdateSrgs engine p = p
    \<and> OnShaderReinitialized engine shader p = p
    \<and> OnShaderAssetReinitialized engine shaderAsset p = p
    \<and> UpdateShaderOptions engine shaderOptions p = p"
  using assms
  by (simp add: UpdateSrgs_def OnShaderReinitialized_def OnShaderAssetReinitialized_def
      UpdateShaderOptions_def)

lemma newPass_fields:
  "m_shader (newPass d) = None"
  "m_state (newPass d) = Uninitialized"
  "m_passDescriptor (newPass d) = d"
  "m_log (newPass d) = []"
  "m_item (newPass d) = DrawItem_default"
  "m_pipelineStateForDraw (newPass d) = []"
  "m_shaderResourceGroup (newPass d) = None"
  "m_drawShaderResourceGroup (newPass d) = None"
  "m_renderPassCalls (newPass d) = []"
  "m_shaderReloadBus (newPass d) = None"
  by (simp_all add: newPass_def)

lemma AZ_Log_fields:
  "m_shader (AZ_Log e p) = m_shader p"
  "m_log (AZ_Log e p) = m_log p @ [e]"
  "m_item (AZ_Log e p) = m_item p"
  "m_pipelineStateForDraw (AZ_Log e p) = m_pipelineStateForDraw p"
  "m_shaderResourceGroup (AZ_Log e p) = m_shaderResourceGroup p"
  "m_drawShaderResourceGroup (AZ_Log e p) = m_drawShaderResourceGroup p"
  "m_renderPassCalls (AZ_Log e p) = m_renderPassCalls p"
  "m_shaderReloadBus (AZ_Log e p) = m_shaderReloadBus p"
  "m_passDescriptor (AZ_Log e p) = m_passDescriptor p"
  by (simp_all add: AZ_Log_def)

lemma ctor_failure:
  assumes fails: "shaderReferenceFails engine d"
  shows "\<exists>entry. isError entry \<and>
    (FullscreenTrianglePass_ctor engine d :: ('f :: {zero,one}) FullscreenTrianglePass)
      = AZ_Log entry (newPass d)"
proof (cases "GetPassData d")
  case None
  then show ?thesis
    by (auto simp: FullscreenTrianglePass_ctor_def LoadShader_def newPass_fields Let_def
        GetPathName_def intro!: exI [of _ "Error_NoPassData (m_passName d)"])
next
  case (Some passData)
  let ?asset = "FindShaderAsset engine
                  (m_assetId (m_shaderAsset passData)) (m_filePath (m_shaderAsset passData))"
  let ?entry = "Error_FailedToLoadShader (m_passName d) (m_filePath (m_shaderAsset passData))"
  have invalid: "\<not> AssetId_IsValid (GetId ShaderAsset_default)"
    by (simp add: ShaderAsset_default_def AssetId_default_def AssetId_IsValid_def)
  from fails Some consider
      "\<not> AssetId_IsValid (m_assetId (m_shaderAsset passData))"
    | "AssetId_IsValid (m_assetId (m_shaderAsset passData))" "\<not> AssetId_IsValid (GetId ?asset)"
    | "AssetId_IsValid (m_assetId (m_shaderAsset passData))" "AssetId_IsValid (GetId ?asset)"
      "Shader_FindOrCreate engine ?asset = None"
    by (auto simp: shaderReferenceFails_def Let_def)
  then have "(FullscreenTrianglePass_ctor engine d :: 'f FullscreenTrianglePass)
      = AZ_Log ?entry (newPass d)"
  proof cases
    case 1
    then show ?thesis
      by (simp add: FullscreenTrianglePass_ctor_def LoadShader_def newPass_fields Let_def Some
          invalid GetPathName_def)
  next
    case 2
    then show ?thesis
      by (simp add: FullscreenTrianglePass_ctor_def LoadShader_def newPass_fields Let_def Some
          GetPathName_def)
  next
    case 3
    have same: "(newPass d :: 'f FullscreenTrianglePass)\<lparr>m_shader := None\<rparr> = newPass d"
      by (simp add: newPass_def)
    from 3 show ?thesis
      by (simp add: FullscreenTrianglePass_ctor_def LoadShader_def newPass_fields Let_def Some
          GetPathName_def same)
  qed
  then show ?thesis
    by (intro exI [of _ ?entry]) simp
qed


lemma callPipeline_fields:
  "m_shader (callPipeline c p) = m_shader p"
  "m_log (callPipeline c p) = m_log p"
  "m_item (callPipeline c p) = m_item p"
  "m_pipelineStateForDraw (callPipeline c p) = m_pipelineStateForDraw p @ [c]"
  "m_shaderResourceGroup (callPipeline c p) = m_shaderResourceGroup p"
  "m_drawShaderResourceGroup (callPipeline c p) = m_drawShaderResourceGroup p"
  "m_renderPassCalls (callPipeline c p) = m_renderPassCalls p"
  "m_shaderReloadBus (callPipeline c p) = m_shaderReloadBus p"
  "m_passDescriptor (callPipeline c p) = m_passDescriptor p"
  "FullscreenTrianglePass.m_stencilRef (callPipeline c p) = FullscreenTrianglePass.m_stencilRef p"
  "m_shaderResourceGroupsToBind (callPipeline c p) = m_shaderResourceGroupsToBind p"
  by (simp_all add: callPipeline_def)

lemma callRenderPass_fields:
  "m_shader (callRenderPass c p) = m_shader p"
  "m_log (callRenderPass c p) = m_log p"
  "m_item (callRenderPass c p) = m_item p"
  "m_pipelineStateForDraw (callRenderPass c p) = m_pipelineStateForDraw p"
  "m_shaderResourceGroup (callRenderPass c p) = m_shaderResourceGroup p"
  "m_drawShaderResourceGroup (callRenderPass c p) = m_drawShaderResourceGroup p"
  "m_renderPassCalls (callRenderPass c p) = m_renderPassCalls p @ [c]"
  "m_shaderReloadBus (callRenderPass c p) = m_shaderReloadBus p"
  "m_passDescriptor (callRenderPass c p) = m_passDescriptor p"
  by (simp_all add: callRenderPass_def)

lemma UpdateSrgs_keeps:
  "m_shader (UpdateSrgs engine p) = m_shader p"
  "m_item (UpdateSrgs engine p) = m_item p"
  "m_renderPassCalls (UpdateSrgs engine p) = m_renderPassCalls p"
  "m_passDescriptor (UpdateSrgs engine p) = m_passDescriptor p"
  by (simp_all add: UpdateSrgs_def Let_def callPipeline_def AZ_Log_def
      split: option.splits)

lemma UpdateSrgs_loaded:
  assumes "m_shader p = Some instance"
  shows "m_shaderResourceGroup (UpdateSrgs engine p) =
           (case FindShaderResourceGroupLayout (shaderAt engine instance) Pass of
              None \<Rightarrow> m_shaderResourceGroup p
            | Some passSrgLayout \<Rightarrow>
                BindDataMappingsToSrg engine (m_passDescriptor p)
                  (ShaderResourceGroup_Create engine (GetAsset (shaderAt engine instance))
                     (GetSupervariantIndex (shaderAt engine instance)) (GetName passSrgLayout)))"
    and "m_drawShaderResourceGroup (UpdateSrgs engine p) =
           CreateDefaultDrawSrg (shaderAt engine instance) False"
    and "m_pipelineStateForDraw (UpdateSrgs engine p) =
           m_pipelineStateForDraw p
             @ [UpdateSrgVariantFallback (m_shaderResourceGroup (UpdateSrgs engine p))]"
  using assms
  by (simp_all add: UpdateSrgs_def Let_def callPipeline_def AZ_Log_def
      split: option.splits)

lemma LoadShader_item: "m_item (LoadShader engine p) = m_item p"
  by (simp add: LoadShader_def Let_def AZ_Log_fields callRenderPass_fields callPipeline_fields
      UpdateSrgs_keeps split: option.splits)

lemma ctor_success:
  assumes "\<not> shaderReferenceFails engine d"
  shows "\<exists>instance. m_shader (FullscreenTrianglePass_ctor engine d) = Some instance
    \<and> QueueForInitialization \<in> set (m_renderPassCalls (FullscreenTrianglePass_ctor engine d))"
  using assms
  by (auto simp: shaderReferenceFails_def FullscreenTrianglePass_ctor_def LoadShader_def Let_def
      newPass_fields callRenderPass_fields callPipeline_fields UpdateSrgs_keeps
      split: option.splits)

lemma BuildDrawItem_item:
  "m_item (BuildDrawItem engine p) =
     (m_item p)\<lparr>m_arguments := LinearArguments
                   \<lparr>m_instanceCount = 1, m_instanceOffset = 0, m_vertexCount = 3,
                    m_vertexOffset = 0\<rparr>,
                m_pipelineState := PipelineState_Finalize engine
                   (m_pipelineStateForDraw p @ [SetOutputFromPass,
                      SetInputStreamLayout \<lparr>m_topology = TriangleList, m_streamChannels = [],
                        m_streamBuffers = [], m_finalized = True\<rparr>]),
                DrawItem.m_stencilRef := ucast (FullscreenTrianglePass.m_stencilRef p)\<rparr>"
  by (simp add: BuildDrawItem_def Let_def callPipeline_fields DrawLinear_default_def
      InputStreamLayout_default_def SetTopology_def InputStreamLayout_Finalize_def)

lemma BuildDrawItem_pipeline:
  "m_pipelineStateForDraw (BuildDrawItem engine p) =
     m_pipelineStateForDraw p @ [SetOutputFromPass,
        SetInputStreamLayout \<lparr>m_topology = TriangleList, m_streamChannels = [],
          m_streamBuffers = [], m_finalized = True\<rparr>, Finalize]"
  by (simp add: BuildDrawItem_def Let_def callPipeline_fields
      InputStreamLayout_default_def SetTopology_def InputStreamLayout_Finalize_def)

lemma submitted_append: "submitted (xs @ ys) = submitted xs @ submitted ys"
  by (induction xs rule: submitted.induct) simp_all

lemma submitted_map_SetSrg: "submitted (map SetShaderResourceGroupForDraw groups) = []"
  by (induction groups) simp_all

lemma submitted_SetSrgsForDraw: "submitted (SetSrgsForDraw p) = []"
  by (simp add: SetSrgsForDraw_def submitted_map_SetSrg)

lemma submitted_BuildCommandListInternal:
  "submitted (BuildCommandListInternal p commandList) = submitted commandList @ [m_item p]"
  by (simp add: BuildCommandListInternal_def submitted_append submitted_SetSrgsForDraw)

theorem no_shader_no_update_witness:
  "m_shader (newPass emptyDescriptor :: real FullscreenTrianglePass) = None
   \<and> UpdateSrgs (sampleEngine sampleShader) (newPass emptyDescriptor :: real FullscreenTrianglePass)
       = newPass emptyDescriptor
   \<and> OnShaderReinitialized (sampleEngine sampleShader) 0
         (newPass emptyDescriptor :: real FullscreenTrianglePass) = newPass emptyDescriptor
   \<and> UpdateShaderOptions (sampleEngine sampleShader) []
         (newPass emptyDescriptor :: real FullscreenTrianglePass) = newPass emptyDescriptor"
  using no_shader_no_update [of "newPass emptyDescriptor :: real FullscreenTrianglePass"
      "sampleEngine sampleShader" 0 "ShaderAsset sampleAssetId" "[]"]
  by (simp add: newPass_fields)

lemma emptyDescriptor_fails: "shaderReferenceFails engine emptyDescriptor"
  by (simp add: shaderReferenceFails_def GetPassData_def emptyDescriptor_def)

lemma sampleDescriptor_loads: "\<not> shaderReferenceFails (sampleEngine content) sampleDescriptor"
  by (simp add: shaderReferenceFails_def GetPassData_def sampleDescriptor_def sampleEngine_def
      AssetId_IsValid_def sampleAssetId_def Let_def)

text \<open>
  C5. The constructor resolves the shader reference of the descriptor. When that fails (pass
  data missing or of another class, asset identifier invalid or asset not found,
  \<^verbatim>\<open>Shader::FindOrCreate\<close> null) it reports one error and leaves the pass inert:
  \<open>m_shader\<close> stays null, neither shader resource group is created, the pipeline state is
  not initialised, the reload bus is not connected and the pass is not queued for
  initialisation.
\<close>

theorem ctor_failure_leaves_pass_inert:
  assumes "shaderReferenceFails engine d"
  shows "(let p = (FullscreenTrianglePass_ctor engine d :: ('f :: {zero,one}) FullscreenTrianglePass)
          in (\<exists>entry. isError entry \<and> m_log p = [entry])
           \<and> m_shader p = None
           \<and> m_shaderResourceGroup p = None
           \<and> m_drawShaderResourceGroup p = None
           \<and> QueueForInitialization \<notin> set (m_renderPassCalls p)
           \<and> m_pipelineStateForDraw p = []
           \<and> m_shaderReloadBus p = None)"
proof -
  obtain entry where "isError entry"
    and "(FullscreenTrianglePass_ctor engine d :: 'f FullscreenTrianglePass)
           = AZ_Log entry (newPass d)"
    using ctor_failure [OF assms] by blast
  then show ?thesis
    by (simp add: Let_def AZ_Log_fields newPass_fields)
qed

theorem ctor_failure_leaves_pass_inert_witness:
  "shaderReferenceFails (sampleEngine sampleShader) emptyDescriptor
   \<and> m_shader (FullscreenTrianglePass_ctor (sampleEngine sampleShader) emptyDescriptor
        :: real FullscreenTrianglePass) = None
   \<and> QueueForInitialization \<notin> set (m_renderPassCalls
        (FullscreenTrianglePass_ctor (sampleEngine sampleShader) emptyDescriptor
          :: real FullscreenTrianglePass))"
  using ctor_failure_leaves_pass_inert [OF emptyDescriptor_fails,
      of "sampleEngine sampleShader", where ?'f = real] emptyDescriptor_fails
  by (simp add: Let_def)

lemma InitializeInternal_failed:
  assumes "isError entry"
    and "p = AZ_Log entry (newPass d)"
  shows "InitializeInternal engine p
    = AZ_Log Error_ShaderNotLoaded (callRenderPass RenderPass_InitializeInternal p)"
  using assms
  by (simp add: InitializeInternal_def Let_def callRenderPass_fields AZ_Log_fields newPass_fields)

text \<open>
  C3, as the code has it. When the shader reference fails to resolve, the constructor and
  \<^verbatim>\<open>InitializeInternal\<close> each log an error and return. No pipeline state is initialised or
  finalised and no draw item is built: \<open>m_item\<close> keeps its default value, with a null
  pipeline state. \<^verbatim>\<open>BuildCommandListInternal\<close> has no test of its own: when it runs it
  records one \<open>Submit\<close>, of that default item.
\<close>

theorem failure_logged_and_nothing_built:
  assumes "shaderReferenceFails engine d"
  shows "(let p = InitializeInternal engine
                    (FullscreenTrianglePass_ctor engine d :: ('f :: {zero,one}) FullscreenTrianglePass)
          in (\<exists>entry. isError entry \<and> m_log p = [entry, Error_ShaderNotLoaded])
           \<and> isError Error_ShaderNotLoaded
           \<and> m_shader p = None
           \<and> m_pipelineStateForDraw p = []
           \<and> m_item p = DrawItem_default
           \<and> m_pipelineState (m_item p) = None
           \<and> submitted (BuildCommandListInternal p commandList)
               = submitted commandList @ [DrawItem_default])"
proof -
  obtain entry where e: "isError entry"
    and c: "(FullscreenTrianglePass_ctor engine d :: 'f FullscreenTrianglePass)
           = AZ_Log entry (newPass d)"
    using ctor_failure [OF assms] by blast
  have i: "InitializeInternal engine (FullscreenTrianglePass_ctor engine d :: 'f FullscreenTrianglePass)
    = AZ_Log Error_ShaderNotLoaded (callRenderPass RenderPass_InitializeInternal
        (AZ_Log entry (newPass d)))"
    using InitializeInternal_failed [OF e c, of engine] c by simp
  show ?thesis
    unfolding Let_def i
    using e
    by (simp add: submitted_BuildCommandListInternal AZ_Log_fields callRenderPass_fields
        newPass_fields DrawItem_default_def)
qed

theorem failure_logged_and_nothing_built_witness:
  "shaderReferenceFails (sampleEngine sampleShader) emptyDescriptor
   \<and> m_pipelineStateForDraw (InitializeInternal (sampleEngine sampleShader)
        (FullscreenTrianglePass_ctor (sampleEngine sampleShader) emptyDescriptor
          :: real FullscreenTrianglePass)) = []
   \<and> m_item (InitializeInternal (sampleEngine sampleShader)
        (FullscreenTrianglePass_ctor (sampleEngine sampleShader) emptyDescriptor
          :: real FullscreenTrianglePass)) = DrawItem_default"
  using failure_logged_and_nothing_built [OF emptyDescriptor_fails,
      of "sampleEngine sampleShader", where ?'f = real] emptyDescriptor_fails
  by (simp add: Let_def)

text \<open>
  "No draw is submitted" fails on a pass built from a descriptor without pass data: after the
  failed construction and initialisation, \<^verbatim>\<open>BuildCommandListInternal\<close> on an empty command
  list records a \<open>Submit\<close> of the default draw item.
\<close>

theorem failure_still_submits_counterexample:
  "shaderReferenceFails (sampleEngine sampleShader) emptyDescriptor
   \<and> submitted (BuildCommandListInternal
        (InitializeInternal (sampleEngine sampleShader)
          (FullscreenTrianglePass_ctor (sampleEngine sampleShader) emptyDescriptor
            :: real FullscreenTrianglePass)) [])
       = [DrawItem_default]
   \<and> submitted (BuildCommandListInternal
        (InitializeInternal (sampleEngine sampleShader)
          (FullscreenTrianglePass_ctor (sampleEngine sampleShader) emptyDescriptor
            :: real FullscreenTrianglePass)) [])
       \<noteq> []"
proof -
  obtain entry where e: "isError entry"
    and c: "(FullscreenTrianglePass_ctor (sampleEngine sampleShader) emptyDescriptor
              :: real FullscreenTrianglePass) = AZ_Log entry (newPass emptyDescriptor)"
    using ctor_failure [OF emptyDescriptor_fails] by blast
  have "m_item (InitializeInternal (sampleEngine sampleShader)
          (FullscreenTrianglePass_ctor (sampleEngine sampleShader) emptyDescriptor
            :: real FullscreenTrianglePass)) = DrawItem_default"
    using InitializeInternal_failed [OF e c, of "sampleEngine sampleShader"]
    by (simp add: c AZ_Log_fields callRenderPass_fields newPass_fields)
  then show ?thesis
    by (simp add: submitted_BuildCommandListInternal emptyDescriptor_fails)
qed

text \<open>
  C6, as the code has it. With a shader loaded, both reload notifications do the same: they
  recreate the default draw resource group from the current content of the shader and hand
  the pass resource group to the pipeline state as its variant fallback. The pass resource
  group is recreated from the Pass-slot layout of the shader, and the data mappings of the
  descriptor bound to it, when the shader has such a layout; when it has none, the pass
  resource group stays as it was.
\<close>

theorem reload_rederives_bindings:
  assumes "m_shader p = Some instance"
  shows "(let shader = shaderAt engine instance;
              p' = OnShaderReinitialized engine reloaded p
          in OnShaderAssetReinitialized engine reloadedAsset p = p'
           \<and> m_shaderResourceGroup p' =
               (case FindShaderResourceGroupLayout shader Pass of
                  None \<Rightarrow> m_shaderResourceGroup p
                | Some passSrgLayout \<Rightarrow>
                    BindDataMappingsToSrg engine (m_passDescriptor p)
                      (ShaderResourceGroup_Create engine (GetAsset shader)
                         (GetSupervariantIndex shader) (GetName passSrgLayout)))
           \<and> m_drawShaderResourceGroup p' = CreateDefaultDrawSrg shader False
           \<and> m_pipelineStateForDraw p' =
               m_pipelineStateForDraw p @ [UpdateSrgVariantFallback (m_shaderResourceGroup p')])"
  unfolding Let_def OnShaderReinitialized_def OnShaderAssetReinitialized_def
  using UpdateSrgs_loaded [OF assms, of engine] by simp

lemma sample_ctor_shader:
  "m_shader (FullscreenTrianglePass_ctor (sampleEngine content) sampleDescriptor) = Some 0"
  by (simp add: FullscreenTrianglePass_ctor_def LoadShader_def Let_def newPass_fields
      GetPassData_def sampleDescriptor_def sampleEngine_def AssetId_IsValid_def
      sampleAssetId_def callRenderPass_fields callPipeline_fields UpdateSrgs_keeps)

lemma sample_ctor_passSrg:
  "m_shaderResourceGroup (FullscreenTrianglePass_ctor (sampleEngine sampleShader) sampleDescriptor)
     = Some \<lparr>srg_asset = ShaderAsset sampleAssetId, srg_supervariantIndex = 0,
             srg_layoutName = ''PassSrg'', srg_data = [(''m_pass'', ''FullscreenCopy'')]\<rparr>"
proof -
  define q :: "'a FullscreenTrianglePass" where
    "q = callPipeline (Init 0 None)
           ((newPass sampleDescriptor)
              \<lparr>m_shader := Some 0, FullscreenTrianglePass.m_stencilRef := 0\<rparr>)"
  have q: "m_shader q = Some 0" "m_passDescriptor q = sampleDescriptor"
    by (simp_all add: q_def callPipeline_fields newPass_fields)
  have "m_shaderResourceGroup (FullscreenTrianglePass_ctor (sampleEngine sampleShader)
          sampleDescriptor :: 'a FullscreenTrianglePass)
      = m_shaderResourceGroup (UpdateSrgs (sampleEngine sampleShader) q)"
    by (simp add: FullscreenTrianglePass_ctor_def LoadShader_def Let_def newPass_fields
        GetPassData_def sampleDescriptor_def sampleEngine_def AssetId_IsValid_def
        sampleAssetId_def callRenderPass_fields q_def)
  also have "\<dots> = Some \<lparr>srg_asset = ShaderAsset sampleAssetId, srg_supervariantIndex = 0,
             srg_layoutName = ''PassSrg'', srg_data = [(''m_pass'', ''FullscreenCopy'')]\<rparr>"
    by (simp add: UpdateSrgs_loaded(1) [OF q(1)] q(2) sampleEngine_def sampleShader_def
        sampleDescriptor_def)
  finally show ?thesis .
qed

theorem reload_rederives_bindings_witness:
  "m_shader (FullscreenTrianglePass_ctor (sampleEngine sampleShader) sampleDescriptor
      :: real FullscreenTrianglePass) = Some 0
   \<and> m_drawShaderResourceGroup (OnShaderReinitialized (sampleEngine sampleShader) 0
        (FullscreenTrianglePass_ctor (sampleEngine sampleShader) sampleDescriptor
          :: real FullscreenTrianglePass)) = Some sampleDrawSrg
   \<and> m_shaderResourceGroup (OnShaderReinitialized (sampleEngine sampleShader) 0
        (FullscreenTrianglePass_ctor (sampleEngine sampleShader) sampleDescriptor
          :: real FullscreenTrianglePass))
       = Some \<lparr>srg_asset = ShaderAsset sampleAssetId, srg_supervariantIndex = 0,
               srg_layoutName = ''PassSrg'', srg_data = [(''m_pass'', ''FullscreenCopy'')]\<rparr>"
proof -
  have d: "m_passDescriptor (FullscreenTrianglePass_ctor (sampleEngine sampleShader)
      sampleDescriptor :: real FullscreenTrianglePass) = sampleDescriptor"
    by (simp add: FullscreenTrianglePass_ctor_def LoadShader_def Let_def newPass_fields
        AZ_Log_fields callRenderPass_fields callPipeline_fields UpdateSrgs_keeps
        split: option.splits)
  have loaded: "m_shader (FullscreenTrianglePass_ctor (sampleEngine sampleShader)
      sampleDescriptor :: real FullscreenTrianglePass) = Some 0"
    by (rule sample_ctor_shader)
  let ?E = "sampleEngine sampleShader"
  let ?P = "FullscreenTrianglePass_ctor ?E sampleDescriptor :: real FullscreenTrianglePass"
  note rederived = reload_rederives_bindings [OF loaded, where engine = ?E and reloaded = 0
      and reloadedAsset = "ShaderAsset sampleAssetId", unfolded Let_def]
  from rederived have "m_drawShaderResourceGroup (OnShaderReinitialized ?E 0 ?P)
      = CreateDefaultDrawSrg (shaderAt ?E 0) False"
    by blast
  also have "\<dots> = Some sampleDrawSrg"
    by (simp add: sampleEngine_def sampleShader_def)
  finally have draw: "m_drawShaderResourceGroup (OnShaderReinitialized ?E 0 ?P)
      = Some sampleDrawSrg" .
  from rederived have "m_shaderResourceGroup (OnShaderReinitialized ?E 0 ?P) =
      (case FindShaderResourceGroupLayout (shaderAt ?E 0) Pass of
         None \<Rightarrow> m_shaderResourceGroup ?P
       | Some passSrgLayout \<Rightarrow>
           BindDataMappingsToSrg ?E (m_passDescriptor ?P)
             (ShaderResourceGroup_Create ?E (GetAsset (shaderAt ?E 0))
                (GetSupervariantIndex (shaderAt ?E 0)) (GetName passSrgLayout)))"
    by blast
  also have "\<dots> = Some \<lparr>srg_asset = ShaderAsset sampleAssetId, srg_supervariantIndex = 0,
               srg_layoutName = ''PassSrg'', srg_data = [(''m_pass'', ''FullscreenCopy'')]\<rparr>"
    by (simp only: d) (simp add: sampleEngine_def sampleShader_def sampleDescriptor_def)
  finally show ?thesis
    using loaded draw by simp
qed

text \<open>
  Two reloads that re-derive less than the claim says. After a reload that removed the Pass
  layout from the shader, the pass still holds the resource group created from the old
  layout. And a notification that reaches a pass whose shader never loaded recreates no draw
  resource group and makes no call on the pipeline state.
\<close>

theorem reload_not_always_rederived_counterexample:
  "m_shader (FullscreenTrianglePass_ctor (sampleEngine sampleShader) sampleDescriptor
      :: real FullscreenTrianglePass) = Some 0
   \<and> FindShaderResourceGroupLayout (shaderAt (sampleEngine sampleShaderWithoutPassSrg) 0) Pass
       = None
   \<and> m_shaderResourceGroup (OnShaderReinitialized (sampleEngine sampleShaderWithoutPassSrg) 0
        (FullscreenTrianglePass_ctor (sampleEngine sampleShader) sampleDescriptor
          :: real FullscreenTrianglePass))
       = m_shaderResourceGroup (FullscreenTrianglePass_ctor (sampleEngine sampleShader)
           sampleDescriptor :: real FullscreenTrianglePass)
   \<and> m_shaderResourceGroup (FullscreenTrianglePass_ctor (sampleEngine sampleShader)
        sampleDescriptor :: real FullscreenTrianglePass)
       = Some \<lparr>srg_asset = ShaderAsset sampleAssetId, srg_supervariantIndex = 0,
               srg_layoutName = ''PassSrg'', srg_data = [(''m_pass'', ''FullscreenCopy'')]\<rparr>
   \<and> m_shader (FullscreenTrianglePass_ctor (sampleEngine sampleShader) emptyDescriptor
        :: real FullscreenTrianglePass) = None
   \<and> CreateDefaultDrawSrg (shaderAt (sampleEngine sampleShader) 0) False = Some sampleDrawSrg
   \<and> m_drawShaderResourceGroup (OnShaderReinitialized (sampleEngine sampleShader) 0
        (FullscreenTrianglePass_ctor (sampleEngine sampleShader) emptyDescriptor
          :: real FullscreenTrianglePass)) = None
   \<and> m_pipelineStateForDraw (OnShaderReinitialized (sampleEngine sampleShader) 0
        (FullscreenTrianglePass_ctor (sampleEngine sampleShader) emptyDescriptor
          :: real FullscreenTrianglePass)) = []"
proof -
  let ?loaded = "FullscreenTrianglePass_ctor (sampleEngine sampleShader) sampleDescriptor
      :: real FullscreenTrianglePass"
  let ?failed = "FullscreenTrianglePass_ctor (sampleEngine sampleShader) emptyDescriptor
      :: real FullscreenTrianglePass"
  have layout: "FindShaderResourceGroupLayout
      (shaderAt (sampleEngine sampleShaderWithoutPassSrg) 0) Pass = None"
    by (simp add: sampleEngine_def sampleShaderWithoutPassSrg_def)
  have stale: "m_shaderResourceGroup
      (OnShaderReinitialized (sampleEngine sampleShaderWithoutPassSrg) 0 ?loaded)
      = m_shaderResourceGroup ?loaded"
    by (simp add: OnShaderReinitialized_def UpdateSrgs_loaded(1) [OF sample_ctor_shader] layout)
  obtain entry where "?failed = AZ_Log entry (newPass emptyDescriptor)"
    using ctor_failure [OF emptyDescriptor_fails] by blast
  then have failed: "m_shader ?failed = None" "m_drawShaderResourceGroup ?failed = None"
    "m_pipelineStateForDraw ?failed = []"
    by (simp_all add: AZ_Log_fields newPass_fields)
  have noop: "OnShaderReinitialized (sampleEngine sampleShader) 0 ?failed = ?failed"
    by (simp add: OnShaderReinitialized_def UpdateSrgs_no_shader failed)
  have draw: "CreateDefaultDrawSrg (shaderAt (sampleEngine sampleShader) 0) False
      = Some sampleDrawSrg"
    by (simp add: sampleEngine_def sampleShader_def)
  show ?thesis
    by (simp add: sample_ctor_shader layout stale sample_ctor_passSrg failed noop draw)
qed

lemma ctor_item: "m_item (FullscreenTrianglePass_ctor engine d) = DrawItem_default"
  by (simp add: FullscreenTrianglePass_ctor_def LoadShader_item newPass_fields)

lemma InitializeInternal_item:
  "m_item (InitializeInternal engine p) =
     (case m_shader p of
        None \<Rightarrow> m_item p
      | Some instance \<Rightarrow> m_item (BuildDrawItem engine
          (callRenderPass RenderPass_InitializeInternal p)))"
  by (simp add: InitializeInternal_def Let_def callRenderPass_fields AZ_Log_fields
      split: option.splits)

lemma LoadShader_loaded_pipeline:
  assumes "m_shader (LoadShader engine p) = Some loaded" and "m_shader p = None"
  shows "m_pipelineStateForDraw (LoadShader engine p) =
           m_pipelineStateForDraw p @ [Init loaded None,
             UpdateSrgVariantFallback (m_shaderResourceGroup (LoadShader engine p))]"
proof -
  define p0 where "p0 = (if m_state p = Rendering
      then AZ_Log Assert_ReloadingShaderDuringRendering p else p)"
  have p0: "m_shader p0 = None" "m_pipelineStateForDraw p0 = m_pipelineStateForDraw p"
    using assms(2) by (simp_all add: p0_def AZ_Log_fields)
  obtain passData where pd: "GetPassData (m_passDescriptor p0) = Some passData"
    using assms(1) p0
    by (cases "GetPassData (m_passDescriptor p0)")
      (simp_all add: LoadShader_def Let_def p0_def [symmetric] AZ_Log_fields)
  define shaderAsset where "shaderAsset =
      (if AssetId_IsValid (m_assetId (m_shaderAsset passData))
       then FindShaderAsset engine (m_assetId (m_shaderAsset passData))
              (m_filePath (m_shaderAsset passData))
       else ShaderAsset_default)"
  have valid: "AssetId_IsValid (GetId shaderAsset)"
    using assms(1) p0 pd
    by (auto simp: LoadShader_def Let_def p0_def [symmetric] shaderAsset_def [symmetric]
        AZ_Log_fields split: if_splits)
  have found: "Shader_FindOrCreate engine shaderAsset = Some loaded"
    using assms(1) p0 pd valid
    by (auto simp: LoadShader_def Let_def p0_def [symmetric] shaderAsset_def [symmetric]
        AZ_Log_fields callRenderPass_fields callPipeline_fields UpdateSrgs_keeps
        split: option.splits)
  define p3 where "p3 = callPipeline (Init loaded None)
      (p0\<lparr>m_shader := Some loaded,
          FullscreenTrianglePass.m_stencilRef := FullscreenTrianglePassData.m_stencilRef passData\<rparr>)"
  have p3: "m_shader p3 = Some loaded"
    "m_pipelineStateForDraw p3 = m_pipelineStateForDraw p @ [Init loaded None]"
    by (simp_all add: p3_def callPipeline_fields p0)
  have run: "LoadShader engine p =
      (callRenderPass QueueForInitialization (UpdateSrgs engine p3))
        \<lparr>m_shaderReloadBus := Some (GetId shaderAsset)\<rparr>"
    using pd valid found
    by (simp add: LoadShader_def Let_def p0_def [symmetric] shaderAsset_def [symmetric] p3_def)
  show ?thesis
    unfolding run
    by (simp add: callRenderPass_fields UpdateSrgs_loaded(3) [OF p3(1)] p3(2))
qed

lemma ctor_pipeline:
  fixes c :: "('f :: {zero,one}) FullscreenTrianglePass"
  assumes "c = FullscreenTrianglePass_ctor engine d" and "m_shader c = Some loaded"
  shows "m_pipelineStateForDraw c =
           [Init loaded None, UpdateSrgVariantFallback (m_shaderResourceGroup c)]"
proof -
  have "m_shader (LoadShader engine (newPass d :: 'f FullscreenTrianglePass)) = Some loaded"
    using assms by (simp add: FullscreenTrianglePass_ctor_def)
  from LoadShader_loaded_pipeline [OF this newPass_fields(1)] show ?thesis
    by (simp add: assms(1) FullscreenTrianglePass_ctor_def newPass_fields)
qed

lemma InitializeInternal_loaded:
  assumes "m_shader p = Some loaded"
  shows "InitializeInternal engine p
    = BuildDrawItem engine (callRenderPass RenderPass_InitializeInternal p)"
  using assms by (simp add: InitializeInternal_def Let_def callRenderPass_fields)

text \<open>
  C1. \<^verbatim>\<open>BuildDrawItem\<close> makes the draw item a linear (non-indexed) draw of exactly 3
  vertices. The pipeline state of the item is the one the builder finalises after it has been
  given an input stream layout of topology \<open>TriangleList\<close> without stream channels or
  buffers. The index and stream buffer views of the item are left alone; in a pass built by
  the constructor and \<^verbatim>\<open>InitializeInternal\<close> there are none, and when the shader loaded the
  builder had been initialised with it. \<^verbatim>\<open>BuildCommandListInternal\<close> records exactly one
  \<open>Submit\<close>, of this item, and \<^verbatim>\<open>SetupFrameGraphDependencies\<close> sets the estimated item
  count to 1.
\<close>

theorem draw_item_is_one_linear_triangle:
  fixes p :: "('f :: {zero,one}) FullscreenTrianglePass"
  shows "(let p' = BuildDrawItem engine p;
              triangle = LinearArguments
                \<lparr>m_instanceCount = 1, m_instanceOffset = 0, m_vertexCount = 3, m_vertexOffset = 0\<rparr>;
              layout = \<lparr>m_topology = TriangleList, m_streamChannels = [], m_streamBuffers = [],
                         m_finalized = True\<rparr>;
              c = (FullscreenTrianglePass_ctor engine d :: 'f FullscreenTrianglePass);
              q = InitializeInternal engine c
          in m_arguments (m_item p') = triangle
           \<and> m_pipelineState (m_item p') =
               PipelineState_Finalize engine
                 (m_pipelineStateForDraw p @ [SetOutputFromPass, SetInputStreamLayout layout])
           \<and> DrawItem.m_stencilRef (m_item p') = ucast (FullscreenTrianglePass.m_stencilRef p)
           \<and> m_pipelineStateForDraw p' =
               m_pipelineStateForDraw p @ [SetOutputFromPass, SetInputStreamLayout layout, Finalize]
           \<and> m_indexBufferView (m_item p') = m_indexBufferView (m_item p)
           \<and> m_streamBufferViews (m_item p') = m_streamBufferViews (m_item p)
           \<and> submitted (BuildCommandListInternal p' commandList)
               = submitted commandList @ [m_item p']
           \<and> m_estimatedItemCount (SetupFrameGraphDependencies baseDependencies p' frameGraph) = 1
           \<and> m_indexBufferView (m_item q) = None
           \<and> m_streamBufferViews (m_item q) = []
           \<and> submitted (BuildCommandListInternal q commandList) = submitted commandList @ [m_item q]
           \<and> (\<not> shaderReferenceFails engine d \<longrightarrow>
                m_arguments (m_item q) = triangle
                \<and> m_pipelineState (m_item q) =
                    PipelineState_Finalize engine
                      (m_pipelineStateForDraw c @ [SetOutputFromPass, SetInputStreamLayout layout])
                \<and> (\<exists>loaded. m_shader c = Some loaded
                     \<and> m_pipelineStateForDraw c =
                         [Init loaded None, UpdateSrgVariantFallback (m_shaderResourceGroup c)])))"
proof -
  let ?c = "FullscreenTrianglePass_ctor engine d :: 'f FullscreenTrianglePass"
  let ?layout = "\<lparr>m_topology = TriangleList, m_streamChannels = [], m_streamBuffers = [],
                         m_finalized = True\<rparr>"
  have built: "m_arguments (m_item (BuildDrawItem engine p)) = LinearArguments
      \<lparr>m_instanceCount = 1, m_instanceOffset = 0, m_vertexCount = 3, m_vertexOffset = 0\<rparr>"
    "m_pipelineState (m_item (BuildDrawItem engine p)) =
       PipelineState_Finalize engine
         (m_pipelineStateForDraw p @ [SetOutputFromPass, SetInputStreamLayout ?layout])"
    "DrawItem.m_stencilRef (m_item (BuildDrawItem engine p))
       = ucast (FullscreenTrianglePass.m_stencilRef p)"
    "m_indexBufferView (m_item (BuildDrawItem engine p)) = m_indexBufferView (m_item p)"
    "m_streamBufferViews (m_item (BuildDrawItem engine p)) = m_streamBufferViews (m_item p)"
    for p :: "'f FullscreenTrianglePass"
    by (simp_all add: BuildDrawItem_item)
  have count: "m_estimatedItemCount
      (SetupFrameGraphDependencies baseDependencies (BuildDrawItem engine p) frameGraph) = 1"
    by (simp add: SetupFrameGraphDependencies_def SetEstimatedItemCount_def)
  have q_buffers: "m_indexBufferView (m_item (InitializeInternal engine ?c)) = None"
    "m_streamBufferViews (m_item (InitializeInternal engine ?c)) = []"
    by (simp_all add: InitializeInternal_item built callRenderPass_fields ctor_item
        DrawItem_default_def split: option.splits)
  have q_loaded: "m_arguments (m_item (InitializeInternal engine ?c)) = LinearArguments
      \<lparr>m_instanceCount = 1, m_instanceOffset = 0, m_vertexCount = 3, m_vertexOffset = 0\<rparr>
    \<and> m_pipelineState (m_item (InitializeInternal engine ?c)) =
        PipelineState_Finalize engine
          (m_pipelineStateForDraw ?c @ [SetOutputFromPass, SetInputStreamLayout ?layout])
    \<and> (\<exists>loaded. m_shader ?c = Some loaded
         \<and> m_pipelineStateForDraw ?c =
             [Init loaded None, UpdateSrgVariantFallback (m_shaderResourceGroup ?c)])"
    if loads: "\<not> shaderReferenceFails engine d"
  proof -
    obtain loaded where l: "m_shader ?c = Some loaded"
      using ctor_success [OF loads] by blast
    have "InitializeInternal engine ?c
        = BuildDrawItem engine (callRenderPass RenderPass_InitializeInternal ?c)"
      by (rule InitializeInternal_loaded [OF l])
    then show ?thesis
      using l ctor_pipeline [OF refl l] by (simp add: built callRenderPass_fields)
  qed
  show ?thesis
    unfolding Let_def
    using built [of p] count q_buffers q_loaded
    by (simp add: BuildDrawItem_pipeline submitted_BuildCommandListInternal)
qed

theorem draw_item_is_one_linear_triangle_witness:
  "\<not> shaderReferenceFails (sampleEngine sampleShader) sampleDescriptor
   \<and> m_arguments (m_item (InitializeInternal (sampleEngine sampleShader)
        (FullscreenTrianglePass_ctor (sampleEngine sampleShader) sampleDescriptor
          :: real FullscreenTrianglePass)))
       = LinearArguments
           \<lparr>m_instanceCount = 1, m_instanceOffset = 0, m_vertexCount = 3, m_vertexOffset = 0\<rparr>
   \<and> m_pipelineState (m_item (InitializeInternal (sampleEngine sampleShader)
        (FullscreenTrianglePass_ctor (sampleEngine sampleShader) sampleDescriptor
          :: real FullscreenTrianglePass))) = Some 4
   \<and> m_indexBufferView (m_item (InitializeInternal (sampleEngine sampleShader)
        (FullscreenTrianglePass_ctor (sampleEngine sampleShader) sampleDescriptor
          :: real FullscreenTrianglePass))) = None"
proof -
  let ?E = "sampleEngine sampleShader"
  let ?c = "FullscreenTrianglePass_ctor ?E sampleDescriptor :: real FullscreenTrianglePass"
  let ?layout = "\<lparr>m_topology = TriangleList, m_streamChannels = [], m_streamBuffers = [],
                         m_finalized = True\<rparr>"
  note loads = sampleDescriptor_loads [of sampleShader]
  note t = draw_item_is_one_linear_triangle [where engine = ?E
      and d = sampleDescriptor and ?'f = real, unfolded Let_def]
  from t loads have args: "m_arguments (m_item (InitializeInternal ?E ?c)) = LinearArguments
           \<lparr>m_instanceCount = 1, m_instanceOffset = 0, m_vertexCount = 3, m_vertexOffset = 0\<rparr>"
    and state: "m_pipelineState (m_item (InitializeInternal ?E ?c)) =
        PipelineState_Finalize ?E
          (m_pipelineStateForDraw ?c @ [SetOutputFromPass, SetInputStreamLayout ?layout])"
    and calls: "\<exists>loaded. m_shader ?c = Some loaded
         \<and> m_pipelineStateForDraw ?c =
             [Init loaded None, UpdateSrgVariantFallback (m_shaderResourceGroup ?c)]"
    and none: "m_indexBufferView (m_item (InitializeInternal ?E ?c)) = None"
    by blast+
  from calls have "length (m_pipelineStateForDraw ?c) = 2"
    by auto
  then have "PipelineState_Finalize ?E
      (m_pipelineStateForDraw ?c @ [SetOutputFromPass, SetInputStreamLayout ?layout]) = Some 4"
    by (simp add: sampleEngine_def)
  with state have "m_pipelineState (m_item (InitializeInternal ?E ?c)) = Some 4"
    by simp
  with loads args none show ?thesis by blast
qed

end
